theory Spec2Isabelle
  imports Complex_Main "HOL-Library.Monad_Syntax"
begin

section \<open>Python values used by the update-detection pipeline\<close>

text \<open>
  Exceptions are values. Only the exception classes that the pipeline raises, catches or
  lets through are listed.
\<close>

datatype exn =
    TypeError | ValueError | OverflowError | OSError | AttributeError | ImportError
  | RequestException | JSONDecodeError | OtherError

subsection \<open>datetime\<close>

text \<open>
  A \<open>datetime\<close> is the record of its civil fields. \<open>tzoffset\<close> is \<open>None\<close> for a naive
  value and \<open>Some off\<close> for an aware one, \<open>off\<close> being the UTC offset in microseconds
  (Python keeps a \<open>tzinfo\<close> object; only its offset is observable through comparison and
  \<open>isoformat\<close>). The \<open>fold\<close> attribute is not modelled.
\<close>

record datetime =
  year :: nat
  month :: nat
  day :: nat
  hour :: nat
  minute :: nat
  second :: nat
  microsecond :: nat
  tzoffset :: "int option"

definition is_leap :: "nat \<Rightarrow> bool" where
  "is_leap y = (y mod 4 = 0 \<and> (y mod 100 \<noteq> 0 \<or> y mod 400 = 0))"

definition days_in_month :: "nat \<Rightarrow> nat \<Rightarrow> nat" where
  "days_in_month y m =
     (if m = 2 then (if is_leap y then 29 else 28)
      else if m = 4 \<or> m = 6 \<or> m = 9 \<or> m = 11 then 30 else 31)"

text \<open>The checks of the \<open>datetime\<close> and \<open>timezone\<close> constructors.\<close>

definition valid_fields :: "nat \<Rightarrow> nat \<Rightarrow> nat \<Rightarrow> nat \<Rightarrow> nat \<Rightarrow> nat \<Rightarrow> nat \<Rightarrow> bool" where
  "valid_fields y mo d h mi s us =
     (1 \<le> y \<and> y \<le> 9999 \<and> 1 \<le> mo \<and> mo \<le> 12 \<and> 1 \<le> d \<and> d \<le> days_in_month y mo \<and>
      h < 24 \<and> mi < 60 \<and> s < 60 \<and> us < 1000000)"

definition valid_offset :: "int option \<Rightarrow> bool" where
  "valid_offset tz = (case tz of None \<Rightarrow> True | Some off \<Rightarrow> \<bar>off\<bar> < 86400000000)"

definition valid_datetime :: "datetime \<Rightarrow> bool" where
  "valid_datetime dt =
     (valid_fields (year dt) (month dt) (day dt) (hour dt) (minute dt) (second dt)
        (microsecond dt) \<and> valid_offset (tzoffset dt))"

text \<open>Days before 1 January of year \<open>y\<close>, and before the first of month \<open>m\<close> in year \<open>y\<close>.\<close>

definition days_before_year :: "nat \<Rightarrow> nat" where
  "days_before_year y = (y - 1) * 365 + (y - 1) div 4 - (y - 1) div 100 + (y - 1) div 400"

definition days_before_month :: "nat \<Rightarrow> nat \<Rightarrow> nat" where
  "days_before_month y m = (\<Sum>k \<leftarrow> [1..<m]. days_in_month y k)"

definition ymd2ord :: "nat \<Rightarrow> nat \<Rightarrow> nat \<Rightarrow> nat" where
  "ymd2ord y m d = days_before_year y + days_before_month y m + d"

text \<open>Microseconds since 0001-01-01T00:00:00 on the value's own clock, and in UTC.\<close>

definition wall_micros :: "datetime \<Rightarrow> int" where
  "wall_micros dt =
     ((int (ymd2ord (year dt) (month dt) (day dt)) * 86400
        + int (hour dt) * 3600 + int (minute dt) * 60 + int (second dt)) * 1000000
      + int (microsecond dt))"

definition aware :: "datetime \<Rightarrow> bool" where
  "aware dt = (tzoffset dt \<noteq> None)"

definition instant :: "datetime \<Rightarrow> int" where
  "instant dt = wall_micros dt - (case tzoffset dt of None \<Rightarrow> 0 | Some off \<Rightarrow> off)"

text \<open>
  The operators \<open>>\<close> and \<open><=\<close> of \<open>datetime\<close>: two naive values compare by their fields,
  two aware values compare as instants, and a naive value against an aware one raises
  \<open>TypeError\<close>.
\<close>

definition dt_cmp :: "(int \<Rightarrow> int \<Rightarrow> bool) \<Rightarrow> datetime \<Rightarrow> datetime \<Rightarrow> exn + bool" where
  "dt_cmp rel a b =
     (if aware a = aware b then Inr (rel (instant a) (instant b)) else Inl TypeError)"

definition dt_gt :: "datetime \<Rightarrow> datetime \<Rightarrow> exn + bool" where
  "dt_gt a b = dt_cmp (\<lambda>x y. x > y) a b"

definition dt_le :: "datetime \<Rightarrow> datetime \<Rightarrow> exn + bool" where
  "dt_le a b = dt_cmp (\<lambda>x y. x \<le> y) a b"

subsection \<open>Decimal fields of fixed width\<close>

definition is_digit :: "char \<Rightarrow> bool" where
  "is_digit c = (48 \<le> (of_char c :: nat) \<and> (of_char c :: nat) \<le> 57)"

definition digit_char :: "nat \<Rightarrow> char" where
  "digit_char d = ''0123456789'' ! (d mod 10)"

definition digit_val :: "char \<Rightarrow> nat" where
  "digit_val c = of_char c - 48"

text \<open>\<open>pad k n\<close> is \<open>'%0kd' % n\<close> for \<open>n < 10 ^ k\<close>, which holds for every field of a valid value.\<close>

fun pad :: "nat \<Rightarrow> nat \<Rightarrow> string" where
  "pad 0 n = []"
| "pad (Suc k) n = pad k (n div 10) @ [digit_char n]"

definition nat_of_digits :: "string \<Rightarrow> nat" where
  "nat_of_digits s = foldl (\<lambda>a c. 10 * a + digit_val c) 0 s"

subsection \<open>isoformat\<close>

text \<open>
  \<open>datetime.isoformat()\<close>: \<open>YYYY-MM-DDTHH:MM:SS\<close>, then \<open>.ffffff\<close> when the microsecond is
  not zero, then the offset of an aware value as \<open>+HH:MM\<close>, with \<open>:SS\<close> and \<open>.ffffff\<close> added
  when they are not zero.
\<close>

definition format_offset :: "int option \<Rightarrow> string" where
  "format_offset tz =
     (case tz of
        None \<Rightarrow> []
      | Some off \<Rightarrow>
          (let a = nat \<bar>off\<bar>;
               hh = a div 3600000000;
               mm = (a div 60000000) mod 60;
               ss = (a div 1000000) mod 60;
               us = a mod 1000000
           in (if off < 0 then ''-'' else ''+'') @ pad 2 hh @ '':'' @ pad 2 mm
              @ (if ss \<noteq> 0 \<or> us \<noteq> 0 then '':'' @ pad 2 ss else [])
              @ (if us \<noteq> 0 then ''.'' @ pad 6 us else [])))"

definition isoformat_sep :: "char \<Rightarrow> datetime \<Rightarrow> string" where
  "isoformat_sep sep dt =
     pad 4 (year dt) @ ''-'' @ pad 2 (month dt) @ ''-'' @ pad 2 (day dt) @ [sep]
     @ pad 2 (hour dt) @ '':'' @ pad 2 (minute dt) @ '':'' @ pad 2 (second dt)
     @ (if microsecond dt \<noteq> 0 then ''.'' @ pad 6 (microsecond dt) else [])
     @ format_offset (tzoffset dt)"

definition isoformat :: "datetime \<Rightarrow> string" where
  "isoformat dt = isoformat_sep CHR ''T'' dt"

text \<open>\<open>str(dt)\<close> is \<open>dt.isoformat(sep=' ')\<close>.\<close>

definition dt_str :: "datetime \<Rightarrow> string" where
  "dt_str dt = isoformat_sep CHR '' '' dt"

subsection \<open>The calendar\<close>

text \<open>
  The civil date of a day count (days since 1970-01-01), by the usual era arithmetic of
  the proleptic Gregorian calendar.
\<close>

definition civil_from_days :: "int \<Rightarrow> int \<times> nat \<times> nat" where
  "civil_from_days z0 =
     (let z = z0 + 719468;
          era = z div 146097;
          doe = z mod 146097;
          yoe = (doe - doe div 1460 + doe div 36524 - doe div 146096) div 365;
          doy = doe - (365 * yoe + yoe div 4 - yoe div 100);
          mp = (5 * doy + 2) div 153;
          d = doy - (153 * mp + 2) div 5 + 1;
          m = (if mp < 10 then mp + 3 else mp - 9);
          y = yoe + era * 400 + (if m \<le> 2 then 1 else 0)
      in (y, nat m, nat d))"

subsection \<open>fromisoformat\<close>

text \<open>
  \<open>datetime.fromisoformat\<close> of CPython 3.11, \<open>None\<close> standing for its \<open>ValueError\<close>. The C
  function reads the UTF-8 encoding of the text, byte by byte, up to the terminating zero
  byte; the definitions follow it, with the rest of the buffer in the place of its
  pointer. A character is a code point below 256.
\<close>

definition utf8 :: "string \<Rightarrow> nat list" where
  "utf8 s =
     concat (map (\<lambda>c. if (of_char c :: nat) < 128 then [of_char c]
                        else [192 + of_char c div 64, 128 + of_char c mod 64]) s)"

text \<open>\<open>*p\<close> and \<open>p[i]\<close>: the byte, or the terminating zero at the end of the buffer.\<close>

definition peek :: "nat list \<Rightarrow> nat" where
  "peek p = (case p of [] \<Rightarrow> 0 | b # _ \<Rightarrow> b)"

definition byte_at :: "nat list \<Rightarrow> nat \<Rightarrow> nat" where
  "byte_at p i = peek (drop i p)"

definition is_digit_byte :: "nat \<Rightarrow> bool" where
  "is_digit_byte b = (48 \<le> b \<and> b \<le> 57)"

text \<open>\<open>parse_digits\<close>: exactly \<open>k\<close> digits, and the buffer after them.\<close>

definition parse_digits :: "nat list \<Rightarrow> nat \<Rightarrow> (nat \<times> nat list) option" where
  "parse_digits p k =
     (if k \<le> length p \<and> list_all is_digit_byte (take k p)
      then Some (foldl (\<lambda>a b. 10 * a + (b - 48)) 0 (take k p), drop k p) else None)"

text \<open>
  \<open>_find_isoformat_datetime_separator\<close>: where the date ends, from the bytes at 4 and 5
  (\<open>-\<close> is 45, \<open>W\<close> is 87). \<open>None\<close> is its result \<open>-1\<close>.
\<close>

definition find_isoformat_datetime_separator :: "nat list \<Rightarrow> nat option" where
  "find_isoformat_datetime_separator dtstr =
     (let len = length dtstr
      in if len = 7 then Some 7
         else if byte_at dtstr 4 = 45 then
           (if byte_at dtstr 5 = 87 then
              (if len < 8 then None
               else if len > 8 \<and> byte_at dtstr 8 = 45 then
                 (if len = 9 then None
                  else if len > 10 \<and> is_digit_byte (byte_at dtstr 10) then Some 8
                  else Some 10)
               else Some 8)
            else Some 10)
         else if byte_at dtstr 4 = 87 then
           (let idx = 7 + length (takeWhile is_digit_byte (drop 7 dtstr))
            in if idx < 9 then Some idx else if even idx then Some 7 else Some 8)
         else Some 8)"

text \<open>
  \<open>iso_to_ymd\<close>: the date of a day of an ISO week. For the year 0 the C function computes
  with a year before the calendar, and the date it arrives at is always rejected by the
  constructor; the result of the last line is checked by the constructor as well.
\<close>

definition iso_to_ymd :: "nat \<Rightarrow> nat \<Rightarrow> nat \<Rightarrow> (int \<times> nat \<times> nat) option" where
  "iso_to_ymd iso_year iso_week iso_day =
     (if iso_year < 1 then None
      else
        (let first_day = int (ymd2ord iso_year 1 1);
             first_weekday = (first_day + 6) mod 7;
             week1_monday = first_day - first_weekday + (if first_weekday > 3 then 7 else 0)
         in if (iso_week = 0 \<or> iso_week \<ge> 53) \<and>
               \<not> (iso_week = 53 \<and>
                  (first_weekday = 3 \<or> first_weekday = 2 \<and> is_leap iso_year))
            then None
            else if iso_day = 0 \<or> iso_day \<ge> 8 then None
            else Some (civil_from_days
                         (week1_monday + (int iso_week - 1) * 7 + int iso_day - 1 - 719163))))"

text \<open>\<open>parse_isoformat_date\<close>; \<open>len\<close> is the separator location it is given.\<close>

definition parse_isoformat_date :: "nat list \<Rightarrow> nat option \<Rightarrow> (int \<times> nat \<times> nat) option" where
  "parse_isoformat_date dtstr len =
     (case parse_digits dtstr 4 of
        None \<Rightarrow> None
      | Some (y, p0) \<Rightarrow>
          (let uses_separator = (peek p0 = 45);
               p = (if uses_separator then drop 1 p0 else p0)
           in if peek p = 87 then
                (case parse_digits (drop 1 p) 2 of
                   None \<Rightarrow> None
                 | Some (iso_week, p1) \<Rightarrow>
                     if (case len of None \<Rightarrow> True | Some n \<Rightarrow> length dtstr - length p1 < n)
                     then
                       (if uses_separator \<and> peek p1 \<noteq> 45 then None
                        else (case parse_digits (if uses_separator then drop 1 p1 else p1) 1 of
                                None \<Rightarrow> None
                              | Some (iso_day, p2) \<Rightarrow> iso_to_ymd y iso_week iso_day))
                     else iso_to_ymd y iso_week 1)
              else
                (case parse_digits p 2 of
                   None \<Rightarrow> None
                 | Some (mo, p1) \<Rightarrow>
                     if uses_separator \<and> peek p1 \<noteq> 45 then None
                     else (case parse_digits (if uses_separator then drop 1 p1 else p1) 2 of
                             None \<Rightarrow> None
                           | Some (d, p2) \<Rightarrow> Some (int y, mo, d)))))"

text \<open>
  The loop of \<open>parse_hh_mm_ss_ff\<close> over hour, minute and second: \<open>k\<close> fields are still to
  be read, \<open>left\<close> is \<open>p_end - p\<close>. It fails, or returns at the end of the field list
  (with the flag that says whether the byte it stopped at is not zero), or goes on to the
  fraction. The byte after the hour decides whether the fields are separated by colons
  (58); a dot (46) or a comma (44) starts the fraction.
\<close>

datatype hms_out = HmsFail | HmsReturn "nat list" bool | HmsFraction "nat list" "nat list" int

fun hms_cons :: "nat \<Rightarrow> hms_out \<Rightarrow> hms_out" where
  "hms_cons v HmsFail = HmsFail"
| "hms_cons v (HmsReturn vs rv) = HmsReturn (v # vs) rv"
| "hms_cons v (HmsFraction vs p left) = HmsFraction (v # vs) p left"

fun hms_fields :: "nat \<Rightarrow> bool \<Rightarrow> nat list \<Rightarrow> int \<Rightarrow> hms_out" where
  "hms_fields 0 has_separator p left = HmsFraction [] p left"
| "hms_fields (Suc k) has_separator p left =
     (case parse_digits p 2 of
        None \<Rightarrow> HmsFail
      | Some (v, p1) \<Rightarrow>
          (let c = peek p1;
               has_sep = (if k = 2 then c = 58 else has_separator)
           in if left - 3 \<le> 0 then HmsReturn [v] (c \<noteq> 0)
              else if has_sep \<and> c = 58
                then hms_cons v (hms_fields k has_sep (drop 1 p1) (left - 3))
              else if c = 46 \<or> c = 44 then HmsFraction [v] (drop 1 p1) (left - 3)
              else if \<not> has_sep then hms_cons v (hms_fields k has_sep p1 (left - 2))
              else HmsFail))"

text \<open>
  \<open>parse_hh_mm_ss_ff\<close> on the buffer \<open>tstr\<close>, of which \<open>len\<close> bytes belong to the field list:
  the fields (those not read are 0), the microseconds from at most six digits of the
  fraction, and whether the byte after the digits is not zero.
\<close>

definition parse_hh_mm_ss_ff :: "nat list \<Rightarrow> int \<Rightarrow> ((nat \<times> nat \<times> nat \<times> nat) \<times> bool) option" where
  "parse_hh_mm_ss_ff tstr len =
     (let field = (\<lambda>vs i. if i < length vs then vs ! i else (0::nat))
      in case hms_fields 3 True tstr len of
           HmsFail \<Rightarrow> None
         | HmsReturn vs rv \<Rightarrow> Some ((field vs 0, field vs 1, field vs 2, 0), rv)
         | HmsFraction vs p left \<Rightarrow>
             (let to_parse = nat (min left 6)
              in case parse_digits p to_parse of
                   None \<Rightarrow> None
                 | Some (us, p1) \<Rightarrow>
                     Some ((field vs 0, field vs 1, field vs 2, us * 10 ^ (6 - to_parse)),
                           peek (dropWhile is_digit_byte p1) \<noteq> 0)))"

text \<open>
  \<open>parse_isoformat_time\<close>: the fields end at the first \<open>Z\<close> (90), \<open>+\<close> (43) or \<open>-\<close> (45);
  what follows a sign is read as a second field list, the offset, in seconds and
  microseconds. Bytes left after the fields are an error only when no offset follows.
\<close>

definition parse_isoformat_time ::
  "nat list \<Rightarrow> ((nat \<times> nat \<times> nat \<times> nat) \<times> (int \<times> int) option) option" where
  "parse_isoformat_time dtstr =
     (if dtstr = [] then None
      else
        (let k = length (takeWhile (\<lambda>b. b \<noteq> 90 \<and> b \<noteq> 43 \<and> b \<noteq> 45) dtstr)
         in case parse_hh_mm_ss_ff dtstr (int k) of
              None \<Rightarrow> None
            | Some (t, rv) \<Rightarrow>
                if k = length dtstr then (if rv then None else Some (t, None))
                else if byte_at dtstr k = 90
                  then (if byte_at dtstr (Suc k) \<noteq> 0 then None else Some (t, Some (0, 0)))
                else
                  (case parse_hh_mm_ss_ff (drop (Suc k) dtstr)
                          (int (length dtstr) - int (Suc k)) of
                     None \<Rightarrow> None
                   | Some ((tzhour, tzminute, tzsecond, tzus), rv') \<Rightarrow>
                       if rv' then None
                       else
                         (let tzsign = (if byte_at dtstr k = 45 then - 1 else (1::int))
                          in Some (t, Some (tzsign * int (tzhour * 3600 + tzminute * 60 + tzsecond),
                                            tzsign * int tzus))))))"

text \<open>
  \<open>tzinfo_from_isoformat_results\<close>: an offset of zero seconds is UTC, whatever its
  microseconds are; any other offset must be shorter than a day.
\<close>

definition tzinfo_from_isoformat_results :: "(int \<times> int) option \<Rightarrow> int option option" where
  "tzinfo_from_isoformat_results tz =
     (case tz of
        None \<Rightarrow> Some None
      | Some (tz_seconds, tz_useconds) \<Rightarrow>
          if tz_seconds = 0 then Some (Some 0)
          else if valid_offset (Some (tz_seconds * 1000000 + tz_useconds))
            then Some (Some (tz_seconds * 1000000 + tz_useconds))
          else None)"

text \<open>The bytes after the separator, which is one character of one to four bytes.\<close>

definition skip_separator_char :: "nat list \<Rightarrow> nat list" where
  "skip_separator_char p =
     (let b = peek p
      in if b < 128 then drop 1 p
         else if b div 16 = 14 then drop 3 p
         else if b div 16 = 15 then drop 4 p
         else drop 2 p)"

definition fromisoformat :: "string \<Rightarrow> datetime option" where
  "fromisoformat s =
     (if length s < 7 then None
      else
        (let dtstr = utf8 s;
             separator_location = find_isoformat_datetime_separator dtstr
         in case parse_isoformat_date dtstr separator_location of
              None \<Rightarrow> None
            | Some (y, mo, d) \<Rightarrow>
                (case (case separator_location of
                         None \<Rightarrow> None
                       | Some n \<Rightarrow>
                           if length dtstr > n
                           then parse_isoformat_time (skip_separator_char (drop n dtstr))
                           else Some ((0, 0, 0, 0), None)) of
                   None \<Rightarrow> None
                 | Some ((h, mi, sec, us), tz) \<Rightarrow>
                     (case tzinfo_from_isoformat_results tz of
                        None \<Rightarrow> None
                      | Some tzinfo \<Rightarrow>
                          if 1 \<le> y \<and> valid_fields (nat y) mo d h mi sec us
                          then Some \<lparr>year = nat y, month = mo, day = d, hour = h, minute = mi,
                                      second = sec, microsecond = us, tzoffset = tzinfo\<rparr>
                          else None))))"

text \<open>\<open>str.replace('Z', '+00:00')\<close>.\<close>

fun replace_Z :: "string \<Rightarrow> string" where
  "replace_Z [] = []"
| "replace_Z (c # cs) = (if c = CHR ''Z'' then ''+00:00'' else [c]) @ replace_Z cs"

subsection \<open>float\<close>

text \<open>
  A Python \<open>float\<close> is an IEEE 754 double: \<open>Num q\<close> is the finite double of value \<open>q\<close>
  (the sign of zero is not kept), the others are the infinities and not-a-number.
  \<open>round_double\<close> is the rounding of a real value to the nearest double, ties to even,
  which is what \<open>float\<close> of a decimal text or of an integer and the division of two
  numbers compute; a value that rounds beyond the largest double gives an infinity.
\<close>

datatype pyfloat = Num rat | PosInf | NegInf | NaN

function bit_length :: "int \<Rightarrow> nat" where
  "bit_length n = (if n \<le> 0 then 0 else Suc (bit_length (n div 2)))"
  by auto
termination by (relation "measure nat") auto

declare bit_length.simps [simp del]

definition pow2 :: "int \<Rightarrow> rat" where
  "pow2 e = (if 0 \<le> e then 2 ^ nat e else 1 / 2 ^ nat (- e))"

text \<open>The exponent of a positive value: the \<open>e\<close> with \<open>2 ^ e \<le> a < 2 ^ (e + 1)\<close>.\<close>

definition exponent_of :: "rat \<Rightarrow> int" where
  "exponent_of a =
     (let e0 = int (bit_length (fst (quotient_of a))) - int (bit_length (snd (quotient_of a)))
      in if pow2 e0 \<le> a then e0 else e0 - 1)"

text \<open>Rounding to the nearest integer, ties to even.\<close>

definition round_half_even :: "rat \<Rightarrow> int" where
  "round_half_even x =
     (let f = \<lfloor>x\<rfloor>; d = x - of_int f
      in if d < 1 / 2 then f else if 1 / 2 < d then f + 1 else if even f then f else f + 1)"

definition round_double :: "rat \<Rightarrow> pyfloat" where
  "round_double x =
     (if x = 0 then Num 0
      else
        (let a = \<bar>x\<bar>;
             e = max (exponent_of a) (- 1022);
             quantum = pow2 (e - 52);
             r = of_int (round_half_even (a / quantum)) * quantum
         in if pow2 1024 \<le> r then (if x < 0 then NegInf else PosInf)
            else Num (if x < 0 then - r else r)))"

text \<open>A number that reaches \<open>fromtimestamp\<close>: an \<open>int\<close> (a \<open>bool\<close> is one) or a \<open>float\<close>.\<close>

datatype pynum = PInt int | PFloat pyfloat

text \<open>\<open>x > c\<close> for a finite constant \<open>c\<close>; the comparison of an \<open>int\<close> with a \<open>float\<close> is exact.\<close>

definition float_gt :: "pyfloat \<Rightarrow> rat \<Rightarrow> bool" where
  "float_gt x c = (case x of Num q \<Rightarrow> c < q | PosInf \<Rightarrow> True | _ \<Rightarrow> False)"

definition num_gt :: "pynum \<Rightarrow> rat \<Rightarrow> bool" where
  "num_gt x c = (case x of PInt n \<Rightarrow> c < of_int n | PFloat f \<Rightarrow> float_gt f c)"

text \<open>
  \<open>x / 1000\<close>: the quotient rounded to a double. The division of two \<open>int\<close>s raises
  \<open>OverflowError\<close> when the quotient is too large for a double.
\<close>

definition float_div :: "pyfloat \<Rightarrow> rat \<Rightarrow> pyfloat" where
  "float_div x c = (case x of Num q \<Rightarrow> round_double (q / c) | _ \<Rightarrow> x)"

definition num_div :: "pynum \<Rightarrow> int \<Rightarrow> exn + pyfloat" where
  "num_div x c =
     (case x of
        PInt n \<Rightarrow> (case round_double (of_int n / of_int c) of
                     Num q \<Rightarrow> Inr (Num q) | _ \<Rightarrow> Inl OverflowError)
      | PFloat f \<Rightarrow> Inr (float_div f (of_int c)))"

subsection \<open>fromtimestamp\<close>

text \<open>
  The seconds and microseconds of a timestamp. For a \<open>float\<close> the C function splits the
  double into its integral and fractional parts, multiplies the fraction by \<open>1e6\<close> (a
  product of doubles) and rounds it to an integer, ties to even; not-a-number raises
  \<open>ValueError\<close>, and seconds outside the 64-bit \<open>time_t\<close> raise \<open>OverflowError\<close>.
\<close>

definition truncate :: "rat \<Rightarrow> int" where
  "truncate q = (if 0 \<le> q then \<lfloor>q\<rfloor> else - \<lfloor>- q\<rfloor>)"

definition in_time_t :: "int \<Rightarrow> bool" where
  "in_time_t n = (- (2 ^ 63) \<le> n \<and> n < 2 ^ 63)"

definition timeval_of :: "pynum \<Rightarrow> exn + int \<times> int" where
  "timeval_of x =
     (case x of
        PInt n \<Rightarrow> if in_time_t n then Inr (n, 0) else Inl OverflowError
      | PFloat NaN \<Rightarrow> Inl ValueError
      | PFloat PosInf \<Rightarrow> Inl OverflowError
      | PFloat NegInf \<Rightarrow> Inl OverflowError
      | PFloat (Num d) \<Rightarrow>
          (let intpart = truncate d;
               floatpart = (case round_double ((d - of_int intpart) * 1000000) of
                              Num f \<Rightarrow> round_half_even f | _ \<Rightarrow> 0);
               sec = (if 1000000 \<le> floatpart then intpart + 1
                      else if floatpart < 0 then intpart - 1 else intpart);
               us = (if 1000000 \<le> floatpart then floatpart - 1000000
                     else if floatpart < 0 then floatpart + 1000000 else floatpart)
           in if in_time_t sec then Inr (sec, us) else Inl OverflowError))"

text \<open>
  \<open>localtime\<close> of the C library on a host whose local time is \<open>utcoffset\<close> seconds east of
  UTC, all year round: it fails (\<open>OSError\<close>) when the year, before or after the offset
  is applied, does not fit the 32-bit \<open>tm_year\<close>, which counts from 1900.
\<close>

definition year_of_seconds :: "int \<Rightarrow> int" where
  "year_of_seconds t = fst (civil_from_days (t div 86400))"

definition tm_year_fits :: "int \<Rightarrow> bool" where
  "tm_year_fits t =
     (- (2 ^ 31) \<le> year_of_seconds t - 1900 \<and> year_of_seconds t - 1900 < 2 ^ 31)"

definition localtime_fails :: "int \<Rightarrow> int \<Rightarrow> bool" where
  "localtime_fails utcoffset t = (\<not> (tm_year_fits t \<and> tm_year_fits (t + utcoffset)))"

text \<open>
  \<open>datetime.fromtimestamp(x)\<close>: the naive local datetime. \<open>ValueError\<close> when the year is
  outside 1..9999. To find the \<open>fold\<close> the C function also converts the instant one day
  earlier, so that the first day of the year 1 raises \<open>ValueError\<close> too.
\<close>

definition fromtimestamp :: "int \<Rightarrow> pynum \<Rightarrow> exn + datetime" where
  "fromtimestamp utcoffset x =
     (case timeval_of x of
        Inl e \<Rightarrow> Inl e
      | Inr (sec, us) \<Rightarrow>
          if localtime_fails utcoffset sec then Inl OSError
          else
            (let t = sec + utcoffset;
                 r = t mod 86400;
                 (y, m, d) = civil_from_days (t div 86400)
             in if y < 1 \<or> 9999 < y then Inl ValueError
                else if localtime_fails utcoffset (sec - 86400) then Inl OSError
                else if year_of_seconds (t - 86400) < 1 then Inl ValueError
                else Inr \<lparr>year = nat y, month = m, day = d,
                           hour = nat (r div 3600),
                           minute = nat ((r div 60) mod 60),
                           second = nat (r mod 60),
                           microsecond = nat us, tzoffset = None\<rparr>))"

section \<open>Handler comparison policy (handlers/base_handler.py)\<close>

definition compare_with_stored :: "datetime option \<Rightarrow> datetime option \<Rightarrow> exn + bool" where
  "compare_with_stored current stored =
     (case current of
        None \<Rightarrow> Inr False
      | Some c \<Rightarrow> (case stored of None \<Rightarrow> Inr True | Some s \<Rightarrow> dt_gt c s))"

section \<open>StateManager (core/state_manager.py)\<close>

text \<open>
  \<open>_state\<close> maps a source id to its entry, a dictionary from field names (\<open>timestamp\<close>,
  \<open>last_check\<close>, \<open>raw_value\<close>, \<open>etag\<close>) to strings. \<open>disk\<close> is the content of the state
  file. \<open>_save_state\<close> rewrites the whole file and swallows an \<open>IOError\<close>; \<open>io_ok\<close> says
  whether the write succeeds.
\<close>

type_synonym entry = "string \<rightharpoonup> string"

record state_manager =
  state :: "string \<rightharpoonup> entry"
  disk :: "string \<rightharpoonup> entry"

definition save_state :: "bool \<Rightarrow> state_manager \<Rightarrow> state_manager" where
  "save_state io_ok sm = (if io_ok then sm\<lparr>disk := state sm\<rparr> else sm)"

definition get_last_timestamp :: "state_manager \<Rightarrow> string \<Rightarrow> datetime option" where
  "get_last_timestamp sm dcid =
     (let source_state = (case state sm dcid of None \<Rightarrow> Map.empty | Some e \<Rightarrow> e)
      in case source_state ''timestamp'' of
           None \<Rightarrow> None
         | Some timestamp_str \<Rightarrow>
             if timestamp_str \<noteq> [] then fromisoformat (replace_Z timestamp_str) else None)"

text \<open>
  \<open>now\<close> is the value of \<open>datetime.now()\<close> at the call. \<open>raw_value\<close> and \<open>etag\<close> are
  written only when they are truthy: given and not empty.
\<close>

definition truthy_str :: "string option \<Rightarrow> bool" where
  "truthy_str v = (case v of None \<Rightarrow> False | Some s \<Rightarrow> s \<noteq> [])"

definition update_timestamp ::
  "bool \<Rightarrow> datetime \<Rightarrow> state_manager \<Rightarrow> string \<Rightarrow> datetime \<Rightarrow> string option \<Rightarrow> string option
     \<Rightarrow> state_manager" where
  "update_timestamp io_ok now sm dcid timestamp raw_value etag =
     (let e0 = (case state sm dcid of None \<Rightarrow> Map.empty | Some e \<Rightarrow> e);
          e1 = e0(''timestamp'' \<mapsto> isoformat timestamp);
          e2 = e1(''last_check'' \<mapsto> isoformat now);
          e3 = (if truthy_str raw_value then e2(''raw_value'' \<mapsto> the raw_value) else e2);
          e4 = (if truthy_str etag then e3(''etag'' \<mapsto> the etag) else e3)
      in save_state io_ok (sm\<lparr>state := (state sm)(dcid \<mapsto> e4)\<rparr>))"

definition clear_state :: "bool \<Rightarrow> state_manager \<Rightarrow> string \<Rightarrow> state_manager" where
  "clear_state io_ok sm dcid =
     (if dcid \<in> dom (state sm)
      then save_state io_ok (sm\<lparr>state := (state sm)(dcid := None)\<rparr>) else sm)"

section \<open>JSON values\<close>

text \<open>
  What \<open>json.loads\<close> returns: \<open>JNull\<close> is Python's \<open>None\<close>, an object is the list of its
  items in order (keys distinct). A number is an \<open>int\<close> or a \<open>float\<close>.
\<close>

datatype json =
    JNull | JBool bool | JInt int | JFloat pyfloat | JStr string
  | JList "json list" | JDict "(string \<times> json) list"

text \<open>\<open>d.get(k, default)\<close> on a JSON object.\<close>

definition jget :: "(string \<times> json) list \<Rightarrow> string \<Rightarrow> json \<Rightarrow> json" where
  "jget kvs k dflt = (case map_of kvs k of None \<Rightarrow> dflt | Some v \<Rightarrow> v)"

text \<open>Truth value of a JSON value in a condition.\<close>

fun truthy :: "json \<Rightarrow> bool" where
  "truthy JNull = False"
| "truthy (JBool b) = b"
| "truthy (JInt n) = (n \<noteq> 0)"
| "truthy (JFloat f) = (f \<noteq> Num 0)"
| "truthy (JStr s) = (s \<noteq> [])"
| "truthy (JList xs) = (xs \<noteq> [])"
| "truthy (JDict kvs) = (kvs \<noteq> [])"

datatype loads_result = Loaded json | DecodeError | LoadsRaised exn

section \<open>Verifier (utils/groq_verifier.py)\<close>

text \<open>
  The outcome dictionary of the verifier. \<open>is_verified\<close>, \<open>reasoning\<close> and
  \<open>suggested_timestamp\<close> hold whatever JSON value the reply carried; \<open>confidence\<close> is the
  \<open>int\<close> 0 or a \<open>float\<close>.
\<close>

record verification =
  v_is_verified :: json
  v_confidence :: json
  v_reasoning :: json
  v_suggested_timestamp :: json
  v_error :: "string option"

text \<open>
  What the chat completion call does: it raises (the text is \<open>str(e)\<close>), or it returns a
  message whose content is a string or \<open>None\<close>.
\<close>

datatype chat_outcome = ChatRaised string | ChatContent "string option"

text \<open>
  The library and service behaviour the verifier depends on: \<open>json_loads\<close> is
  \<open>json.loads\<close>, \<open>float_of_str\<close> is \<open>float\<close> on a string (\<open>None\<close> for its
  \<open>ValueError\<close>), \<open>str_of_exn\<close> is \<open>str(e)\<close> for an exception raised inside the
  verifier, and \<open>chat\<close> is the service call on the prompt built from the extracted
  timestamp, the truncated content, the source name and the URL.
\<close>

record verifier_env =
  json_loads :: "string \<Rightarrow> loads_result"
  float_of_str :: "string \<Rightarrow> pyfloat option"
  str_of_exn :: "exn \<Rightarrow> string"
  chat :: "string \<Rightarrow> string \<Rightarrow> string \<Rightarrow> string \<Rightarrow> chat_outcome"

text \<open>
  \<open>re.search(r'\{[\s\S]*\}', text)\<close>: from the first opening brace to the last closing
  brace after it.
\<close>

definition json_match :: "string \<Rightarrow> string option" where
  "json_match s =
     (case dropWhile (\<lambda>c. c \<noteq> CHR ''{'') s of
        [] \<Rightarrow> None
      | b # r \<Rightarrow>
          if CHR ''}'' \<in> set r
          then Some (b # rev (dropWhile (\<lambda>c. c \<noteq> CHR ''}'') (rev r)))
          else None)"

text \<open>
  \<open>float(x)\<close> on a JSON value: an \<open>int\<close> is rounded to the nearest double and raises
  \<open>OverflowError\<close> when it is too large for one.
\<close>

definition py_float :: "verifier_env \<Rightarrow> json \<Rightarrow> exn + pyfloat" where
  "py_float env v =
     (case v of
        JInt n \<Rightarrow> (case round_double (of_int n) of
                     Num q \<Rightarrow> Inr (Num q) | _ \<Rightarrow> Inl OverflowError)
      | JFloat f \<Rightarrow> Inr f
      | JBool b \<Rightarrow> Inr (Num (if b then 1 else 0))
      | JStr s \<Rightarrow> (case float_of_str env s of None \<Rightarrow> Inl ValueError | Some f \<Rightarrow> Inr f)
      | _ \<Rightarrow> Inl TypeError)"

definition fallback_response :: "string \<Rightarrow> verification" where
  "fallback_response response_text =
     \<lparr>v_is_verified = JNull, v_confidence = JInt 0, v_reasoning = JStr (take 500 response_text),
      v_suggested_timestamp = JNull, v_error = Some ''Could not parse structured response''\<rparr>"

text \<open>
  \<open>_parse_response\<close> catches \<open>json.JSONDecodeError\<close> only: any other exception of the
  body leaves the function.
\<close>

definition groq_parse_response :: "verifier_env \<Rightarrow> string \<Rightarrow> exn + verification" where
  "groq_parse_response env response_text =
     (case json_match response_text of
        None \<Rightarrow> Inr (fallback_response response_text)
      | Some m \<Rightarrow>
          (case json_loads env m of
             DecodeError \<Rightarrow> Inr (fallback_response response_text)
           | LoadsRaised e \<Rightarrow> Inl e
           | Loaded (JDict result) \<Rightarrow>
               (case py_float env (jget result ''confidence'' (JInt 0)) of
                  Inl e \<Rightarrow> Inl e
                | Inr conf \<Rightarrow>
                    Inr \<lparr>v_is_verified = jget result ''is_verified'' (JBool False),
                         v_confidence = JFloat conf,
                         v_reasoning = jget result ''reasoning'' (JStr []),
                         v_suggested_timestamp = jget result ''correct_timestamp'' JNull,
                         v_error = None\<rparr>)
           | Loaded _ \<Rightarrow> Inl AttributeError))"

definition client_unavailable :: verification where
  "client_unavailable =
     \<lparr>v_is_verified = JNull, v_confidence = JInt 0,
      v_reasoning = JStr ''Groq client not available'',
      v_suggested_timestamp = JNull,
      v_error = Some ''GROQ_API_KEY not configured or groq package not installed''\<rparr>"

definition call_failed :: "string \<Rightarrow> verification" where
  "call_failed msg =
     \<lparr>v_is_verified = JNull, v_confidence = JInt 0,
      v_reasoning = JStr (''API call failed: '' @ msg),
      v_suggested_timestamp = JNull, v_error = Some msg\<rparr>"

definition truncate_content :: "string \<Rightarrow> string" where
  "truncate_content page_content =
     take 4000 page_content
     @ (if length page_content > 4000 then CHR 0x0A # ''... [content truncated]'' else [])"

text \<open>
  \<open>verify_timestamp\<close>: \<open>client\<close> says whether the service client was created. The call
  and the parsing of its reply run under \<open>except Exception\<close>; a content of \<open>None\<close> makes
  \<open>re.search\<close> raise \<open>TypeError\<close> there.
\<close>

definition verify_timestamp ::
  "verifier_env \<Rightarrow> bool \<Rightarrow> string \<Rightarrow> string \<Rightarrow> string \<Rightarrow> string \<Rightarrow> exn + verification" where
  "verify_timestamp env client extracted_timestamp page_content source_name data_url =
     (if \<not> client then Inr client_unavailable
      else
        (case (case chat env extracted_timestamp (truncate_content page_content)
                      source_name data_url of
                 ChatRaised msg \<Rightarrow> Inl msg
               | ChatContent None \<Rightarrow> Inl (str_of_exn env TypeError)
               | ChatContent (Some text) \<Rightarrow>
                   (case groq_parse_response env text of
                      Inl e \<Rightarrow> Inl (str_of_exn env e)
                    | Inr r \<Rightarrow> Inr r)) of
           Inl msg \<Rightarrow> Inr (call_failed msg)
         | Inr r \<Rightarrow> Inr r))"

text \<open>
  The replies from which \<open>_parse_response\<close> reads a verdict: a span from the first
  opening brace to the last closing brace is found, \<open>json.loads\<close> decodes it to an
  object, and \<open>float\<close> converts the object's \<open>confidence\<close>, or the 0 that stands for a
  missing one. Nothing else is asked of the object: the other fields may be missing or
  hold values of any type.
\<close>

definition reads_verdict :: "verifier_env \<Rightarrow> string \<Rightarrow> bool" where
  "reads_verdict env response_text =
     (case json_match response_text of
        None \<Rightarrow> False
      | Some m \<Rightarrow>
          (case json_loads env m of
             Loaded (JDict d) \<Rightarrow>
               (case py_float env (jget d ''confidence'' (JInt 0)) of
                  Inr _ \<Rightarrow> True | Inl _ \<Rightarrow> False)
           | _ \<Rightarrow> False))"

text \<open>
  No verdict is read when the client is missing, the call raises, the content is \<open>None\<close>,
  or the reply is not one of those.
\<close>

definition no_verdict ::
  "verifier_env \<Rightarrow> bool \<Rightarrow> string \<Rightarrow> string \<Rightarrow> string \<Rightarrow> string \<Rightarrow> bool" where
  "no_verdict env client extracted_timestamp page_content source_name data_url =
     (if \<not> client then True
      else (case chat env extracted_timestamp (truncate_content page_content) source_name
                   data_url of
              ChatRaised msg \<Rightarrow> True
            | ChatContent None \<Rightarrow> True
            | ChatContent (Some response_text) \<Rightarrow> \<not> reads_verdict env response_text))"

text \<open>The "unknown" outcome: nothing verified, confidence 0, and an error text attached.\<close>

definition is_unknown :: "verification \<Rightarrow> bool" where
  "is_unknown r =
     (v_is_verified r = JNull \<and> v_confidence r = JInt 0 \<and> v_suggested_timestamp r = JNull \<and>
      v_error r \<noteq> None)"

section \<open>Registry (core/registry.py)\<close>

text \<open>
  A source descriptor is the dictionary read from the configuration, as the list of its
  items. Values have the types of the descriptor's fields; a value of another type is
  read as absent.
\<close>

datatype cval = CStr string | CInt int | CStrs "string list"

type_synonym config = "(string \<times> cval) list"

definition get_str :: "config \<Rightarrow> string \<Rightarrow> string option" where
  "get_str c k = (case map_of c k of Some (CStr s) \<Rightarrow> Some s | _ \<Rightarrow> None)"

definition get_str_or :: "config \<Rightarrow> string \<Rightarrow> string \<Rightarrow> string" where
  "get_str_or c k dflt = (case get_str c k of Some s \<Rightarrow> s | None \<Rightarrow> dflt)"

definition get_strs :: "config \<Rightarrow> string \<Rightarrow> string list option" where
  "get_strs c k = (case map_of c k of Some (CStrs xs) \<Rightarrow> Some xs | _ \<Rightarrow> None)"

datatype handler_kind = HTTPHandler | APIHandler | SeleniumHandler | BS4Handler | CLIHandler

definition HANDLER_MAP :: "string \<Rightarrow> handler_kind option" where
  "HANDLER_MAP m =
     (if m = ''http_head'' then Some HTTPHandler
      else if m = ''api'' then Some APIHandler
      else if m = ''selenium'' then Some SeleniumHandler
      else if m = ''beautifulsoup'' then Some BS4Handler
      else if m = ''cli'' then Some CLIHandler
      else None)"

type_synonym registry = "string \<rightharpoonup> config"

definition get_source :: "registry \<Rightarrow> string \<Rightarrow> config option" where
  "get_source sources dcid = sources dcid"

text \<open>
  \<open>get_handler\<close> returns the handler class and the configuration it is built with, the
  source's own with \<open>dcid\<close> added.
\<close>

definition get_handler :: "registry \<Rightarrow> string \<Rightarrow> (handler_kind \<times> config) option" where
  "get_handler sources dcid =
     (case get_source sources dcid of
        None \<Rightarrow> None
      | Some source_config \<Rightarrow>
          if source_config = [] then None
          else (case get_str source_config ''method'' of
                  None \<Rightarrow> None
                | Some m \<Rightarrow>
                    if m = [] then None
                    else (case HANDLER_MAP m of
                            None \<Rightarrow> None
                          | Some handler_class \<Rightarrow>
                              Some (handler_class, (''dcid'', CStr dcid) # source_config))))"

section \<open>Orchestrator (core/sentinel.py)\<close>

text \<open>
  What a handler holds after \<open>fetch_current_timestamp\<close>: \<open>_raw_timestamp\<close>, \<open>_etag\<close> and
  \<open>_page_content\<close>. Only the HTTP handler has \<open>get_etag\<close>; the HTTP and CLI handlers have
  no \<open>_page_content\<close> attribute.
\<close>

record handler_attrs =
  h_raw_timestamp :: "string option"
  h_etag :: "string option"
  h_page_content :: "string option"

text \<open>A fetch raises (the text is \<open>str(e)\<close>) or returns an optional datetime.\<close>

datatype fetch_result = FetchRaised string | FetchReturned "datetime option" handler_attrs

record CheckResult =
  r_dcid :: string
  r_import_name :: "string option"
  r_data_url :: "string option"
  r_script_url :: "string option"
  r_method :: "string option"
  r_changed :: bool
  r_current_timestamp :: "datetime option"
  r_previous_timestamp :: "datetime option"
  r_raw_timestamp :: "string option"
  r_error :: "string option"
  r_is_verified :: json
  r_verification_confidence :: json
  r_verification_reasoning :: json
  r_suggested_timestamp :: json

text \<open>The dataclass defaults; \<open>check_time\<close> is not modelled.\<close>

definition CheckResult_default :: "string \<Rightarrow> CheckResult" where
  "CheckResult_default dcid =
     \<lparr>r_dcid = dcid, r_import_name = None, r_data_url = None, r_script_url = None,
      r_method = None, r_changed = False, r_current_timestamp = None,
      r_previous_timestamp = None, r_raw_timestamp = None, r_error = None,
      r_is_verified = JNull, r_verification_confidence = JFloat (Num 0),
      r_verification_reasoning = JNull,
      r_suggested_timestamp = JNull\<rparr>"

text \<open>
  The world of one check: \<open>w_fetch\<close> is the handler's \<open>fetch_current_timestamp\<close> on the
  network, \<open>w_now\<close> the clock read by \<open>update_timestamp\<close>, \<open>w_io_ok\<close> whether the state
  file can be written, \<open>w_venv\<close> the verifier's service.
\<close>

record world =
  w_fetch :: "handler_kind \<Rightarrow> config \<Rightarrow> fetch_result"
  w_now :: datetime
  w_io_ok :: bool
  w_venv :: verifier_env

text \<open>
  The verifier of a Sentinel: \<open>None\<close> when verification is disabled, otherwise whether
  its client exists.
\<close>

type_synonym verifier = "bool option"

definition get_etag :: "handler_kind \<Rightarrow> handler_attrs \<Rightarrow> string option" where
  "get_etag kind attrs = (if kind = HTTPHandler then h_etag attrs else None)"

definition has_page_content :: "handler_kind \<Rightarrow> bool" where
  "has_page_content kind = (kind = APIHandler \<or> kind = SeleniumHandler \<or> kind = BS4Handler)"

definition str_or :: "string option \<Rightarrow> string \<Rightarrow> string" where
  "str_or v dflt = (if truthy_str v then the v else dflt)"

definition merge_verification :: "CheckResult \<Rightarrow> verification \<Rightarrow> CheckResult" where
  "merge_verification result vr =
     result\<lparr>r_is_verified := v_is_verified vr,
            r_verification_confidence := v_confidence vr,
            r_verification_reasoning := v_reasoning vr,
            r_suggested_timestamp := v_suggested_timestamp vr\<rparr>"

text \<open>The verification step that ends a check: it fills the four verification fields.\<close>

definition verify_result ::
  "world \<Rightarrow> verifier \<Rightarrow> handler_kind \<Rightarrow> handler_attrs \<Rightarrow> string \<Rightarrow> string
     \<Rightarrow> datetime option \<Rightarrow> CheckResult \<Rightarrow> exn + CheckResult" where
  "verify_result w ver kind attrs import_name data_url current_timestamp result =
     (case (ver, current_timestamp) of
        (Some True, Some c) \<Rightarrow>
          (let raw_timestamp = str_or (h_raw_timestamp attrs) (dt_str c);
               page_content =
                 str_or (if has_page_content kind then h_page_content attrs else Some [])
                   raw_timestamp
           in case verify_timestamp (w_venv w) True raw_timestamp page_content import_name
                     data_url of
                Inl e \<Rightarrow> Inl e
              | Inr vr \<Rightarrow> Inr (merge_verification result vr))
      | _ \<Rightarrow> Inr result)"

text \<open>The part of a check that follows a fetch that returned.\<close>

definition compare_and_store ::
  "world \<Rightarrow> verifier \<Rightarrow> state_manager \<Rightarrow> string \<Rightarrow> CheckResult \<Rightarrow> string \<Rightarrow> string
     \<Rightarrow> handler_kind \<Rightarrow> datetime option \<Rightarrow> handler_attrs
     \<Rightarrow> (exn + CheckResult) \<times> state_manager" where
  "compare_and_store w ver sm dcid base import_name data_url kind current_timestamp attrs =
     (let stored_timestamp = get_last_timestamp sm dcid
      in case compare_with_stored current_timestamp stored_timestamp of
           Inl e \<Rightarrow> (Inl e, sm)
         | Inr changed \<Rightarrow>
             (let sm' =
                    (case current_timestamp of
                       None \<Rightarrow> sm
                     | Some c \<Rightarrow>
                         update_timestamp (w_io_ok w) (w_now w) sm dcid c
                           (h_raw_timestamp attrs) (get_etag kind attrs));
                  result = base
                    \<lparr>r_changed := changed,
                     r_current_timestamp := current_timestamp,
                     r_previous_timestamp := stored_timestamp,
                     r_raw_timestamp := h_raw_timestamp attrs\<rparr>
              in (verify_result w ver kind attrs import_name data_url current_timestamp result,
                  sm')))"

text \<open>
  \<open>check_for_updates\<close> returns the result, or the exception that leaves it, and the state
  manager after the call.
\<close>

definition source_not_found :: "string \<Rightarrow> CheckResult" where
  "source_not_found dcid =
     (CheckResult_default dcid)\<lparr>r_error := Some (''Source not found: '' @ dcid)\<rparr>"

definition check_for_updates ::
  "world \<Rightarrow> registry \<Rightarrow> verifier \<Rightarrow> state_manager \<Rightarrow> string
     \<Rightarrow> (exn + CheckResult) \<times> state_manager" where
  "check_for_updates w sources ver sm dcid =
     (case get_source sources dcid of
        None \<Rightarrow> (Inr (source_not_found dcid), sm)
      | Some source_config \<Rightarrow>
          if source_config = [] then (Inr (source_not_found dcid), sm)
          else
            (let import_name = get_str_or source_config ''import_name'' dcid;
                 data_url = get_str_or source_config ''data_url'' [];
                 script_url = get_str_or source_config ''script_url'' [];
                 method = get_str_or source_config ''method'' [];
                 base = (CheckResult_default dcid)
                          \<lparr>r_import_name := Some import_name, r_data_url := Some data_url,
                           r_script_url := Some script_url, r_method := Some method\<rparr>
             in case get_handler sources dcid of
                  None \<Rightarrow>
                    (Inr (base\<lparr>r_error := Some (''No handler available for: '' @ dcid)\<rparr>), sm)
                | Some (kind, config) \<Rightarrow>
                    (case w_fetch w kind config of
                       FetchRaised msg \<Rightarrow> (Inr (base\<lparr>r_error := Some msg\<rparr>), sm)
                     | FetchReturned current_timestamp attrs \<Rightarrow>
                         compare_and_store w ver sm dcid base import_name data_url kind
                           current_timestamp attrs)))"

section \<open>DateParser (utils/date_parser.py)\<close>

subsection \<open>Characters\<close>

text \<open>What \<open>str.split()\<close>, \<open>str.strip()\<close> and the regular expression \<open>\s\<close> take as whitespace.\<close>

definition is_space :: "char \<Rightarrow> bool" where
  "is_space c = ((of_char c :: nat) \<in> {9, 10, 11, 12, 13, 28, 29, 30, 31, 32, 133, 160})"

definition lower_char :: "char \<Rightarrow> char" where
  "lower_char c =
     (if 65 \<le> (of_char c :: nat) \<and> (of_char c :: nat) \<le> 90
      then char_of ((of_char c :: nat) + 32) else c)"

definition upper_char :: "char \<Rightarrow> char" where
  "upper_char c =
     (if 97 \<le> (of_char c :: nat) \<and> (of_char c :: nat) \<le> 122
      then char_of ((of_char c :: nat) - 32) else c)"

definition lower :: "string \<Rightarrow> string" where
  "lower s = map lower_char s"

definition upper :: "string \<Rightarrow> string" where
  "upper s = map upper_char s"

definition strip :: "string \<Rightarrow> string" where
  "strip s = rev (dropWhile is_space (rev (dropWhile is_space s)))"

text \<open>\<open>s.split()\<close>: the maximal runs of characters that are not whitespace.\<close>

fun split_ws_acc :: "string \<Rightarrow> string \<Rightarrow> string list" where
  "split_ws_acc acc [] = (if acc = [] then [] else [rev acc])"
| "split_ws_acc acc (c # cs) =
     (if is_space c then (if acc = [] then [] else [rev acc]) @ split_ws_acc [] cs
      else split_ws_acc (c # acc) cs)"

definition split_ws :: "string \<Rightarrow> string list" where
  "split_ws s = split_ws_acc [] s"

text \<open>\<open>' '.join(words)\<close>.\<close>

fun join_space :: "string list \<Rightarrow> string" where
  "join_space [] = []"
| "join_space [w] = w"
| "join_space (w # ws) = w @ '' '' @ join_space ws"

text \<open>A prefix matched without regard to case, as under \<open>re.IGNORECASE\<close>.\<close>

definition strip_prefix_ci :: "string \<Rightarrow> string \<Rightarrow> string option" where
  "strip_prefix_ci kw s =
     (if length kw \<le> length s \<and> lower (take (length kw) s) = lower kw
      then Some (drop (length kw) s) else None)"

subsection \<open>Cleaning\<close>

text \<open>The tail \<open>\s*[:\-]?\s*\<close> of every prefix pattern.\<close>

definition skip_separator :: "string \<Rightarrow> string" where
  "skip_separator s =
     (let r = dropWhile is_space s
      in case r of
           c # r' \<Rightarrow> if c = CHR '':'' \<or> c = CHR ''-'' then dropWhile is_space r' else r
         | [] \<Rightarrow> r)"

text \<open>
  A prefix pattern is its words: \<open>^Last\s+(?:Updated|Modified)\<close> is the word \<open>Last\<close>,
  whitespace, and one of two words. \<open>remove_prefix\<close> is \<open>re.sub\<close> of one pattern.
\<close>

definition match_two_words :: "string \<Rightarrow> string list \<Rightarrow> string \<Rightarrow> string option" where
  "match_two_words w1 w2s s =
     (case strip_prefix_ci w1 s of
        None \<Rightarrow> None
      | Some r \<Rightarrow>
          (case r of
             [] \<Rightarrow> None
           | c # r' \<Rightarrow>
               if is_space c
               then List.find (\<lambda>x. x \<noteq> None)
                      (map (\<lambda>w2. strip_prefix_ci w2 (dropWhile is_space r')) w2s) \<bind> id
               else None))"

datatype prefix_pattern = OneWord string | TwoWords string "string list"

definition remove_prefix :: "prefix_pattern \<Rightarrow> string \<Rightarrow> string" where
  "remove_prefix p s =
     (case (case p of OneWord w \<Rightarrow> strip_prefix_ci w s
                    | TwoWords w1 w2s \<Rightarrow> match_two_words w1 w2s s) of
        None \<Rightarrow> s
      | Some r \<Rightarrow> skip_separator r)"

definition prefixes :: "prefix_pattern list" where
  "prefixes =
     [TwoWords ''Last'' [''Updated'', ''Modified''],
      OneWord ''Updated'', OneWord ''Modified'', OneWord ''Date'',
      TwoWords ''As'' [''of'']]"

definition tz_abbreviations :: "string list" where
  "tz_abbreviations = [''EST'', ''EDT'', ''PST'', ''PDT'', ''CST'', ''CDT'', ''MST'', ''MDT'']"

text \<open>\<open>re.sub(r'\s*(EST|EDT|...)\s*$', '', s)\<close>.\<close>

definition rstrip :: "string \<Rightarrow> string" where
  "rstrip s = rev (dropWhile is_space (rev s))"

definition remove_tz_abbreviation :: "string \<Rightarrow> string" where
  "remove_tz_abbreviation s =
     (let t = rstrip s
      in if 3 \<le> length t \<and> drop (length t - 3) t \<in> set tz_abbreviations
         then rstrip (take (length t - 3) t) else s)"

definition clean_date_string :: "string \<Rightarrow> string" where
  "clean_date_string date_string =
     strip (remove_tz_abbreviation (foldl (\<lambda>s p. remove_prefix p s)
       (join_space (split_ws date_string)) prefixes))"

subsection \<open>strptime\<close>

text \<open>
  \<open>datetime.strptime\<close> turns the format into a regular expression, one group per
  directive, and matches it at the start of the text without regard to case: a
  directive is an alternation tried in order, whitespace in the format is \<open>\s+\<close>, any
  other character stands for itself. The text must be consumed by the first match found.
\<close>

datatype directive =
    DY | Dm | Dd | DH | DM | DS | Df | DB | Db | Da | DZ | Lit char | WS

fun directives :: "string \<Rightarrow> directive list" where
  "directives [] = []"
| "directives [c] = (if is_space c then [WS] else [Lit c])"
| "directives (c # d # cs) =
     (if c = CHR ''%'' then
        (if d = CHR ''Y'' then DY else if d = CHR ''m'' then Dm else if d = CHR ''d'' then Dd
         else if d = CHR ''H'' then DH else if d = CHR ''M'' then DM
         else if d = CHR ''S'' then DS else if d = CHR ''f'' then Df
         else if d = CHR ''B'' then DB else if d = CHR ''b'' then Db
         else if d = CHR ''a'' then Da else if d = CHR ''Z'' then DZ else Lit d)
        # directives cs
      else (if is_space c then WS else Lit c) # directives (d # cs))"

text \<open>A run of whitespace in the format is one \<open>\s+\<close>.\<close>

fun collapse_ws :: "directive list \<Rightarrow> directive list" where
  "collapse_ws (WS # WS # ds) = collapse_ws (WS # ds)"
| "collapse_ws (d # ds) = d # collapse_ws ds"
| "collapse_ws [] = []"

definition compile_format :: "string \<Rightarrow> directive list" where
  "compile_format fmt = collapse_ws (directives fmt)"

text \<open>The fields a match collects; the defaults are those of \<open>strptime\<close>.\<close>

record tm =
  tm_year :: nat
  tm_month :: nat
  tm_day :: nat
  tm_hour :: nat
  tm_minute :: nat
  tm_second :: nat
  tm_fraction :: nat

definition tm_default :: tm where
  "tm_default =
     \<lparr>tm_year = 1900, tm_month = 1, tm_day = 1, tm_hour = 0, tm_minute = 0, tm_second = 0,
      tm_fraction = 0\<rparr>"

text \<open>
  One alternative of a numeric directive: \<open>k\<close> characters that satisfy \<open>ok\<close>. The value
  is read from the digits among them.
\<close>

definition alt :: "nat \<Rightarrow> (string \<Rightarrow> bool) \<Rightarrow> string \<Rightarrow> (nat \<times> string) list" where
  "alt k ok s =
     (if k \<le> length s \<and> ok (take k s)
      then [(nat_of_digits (filter is_digit (take k s)), drop k s)] else [])"

definition in_range :: "char \<Rightarrow> char \<Rightarrow> char \<Rightarrow> bool" where
  "in_range lo hi c = ((of_char lo :: nat) \<le> of_char c \<and> (of_char c :: nat) \<le> of_char hi)"

definition two :: "(char \<Rightarrow> bool) \<Rightarrow> (char \<Rightarrow> bool) \<Rightarrow> string \<Rightarrow> bool" where
  "two p q s = (case s of [a, b] \<Rightarrow> p a \<and> q b | _ \<Rightarrow> False)"

definition one :: "(char \<Rightarrow> bool) \<Rightarrow> string \<Rightarrow> bool" where
  "one p s = (case s of [a] \<Rightarrow> p a | _ \<Rightarrow> False)"

definition month_names :: "string list" where
  "month_names =
     [''january'', ''february'', ''march'', ''april'', ''may'', ''june'', ''july'', ''august'',
      ''september'', ''october'', ''november'', ''december'']"

definition month_abbrs :: "string list" where
  "month_abbrs = map (take 3) month_names"

definition day_abbrs :: "string list" where
  "day_abbrs = [''mon'', ''tue'', ''wed'', ''thu'', ''fri'', ''sat'', ''sun'']"

text \<open>
  A directive of names is the alternation of the names, longest first; the value is
  the position of the name in the calendar.
\<close>

definition longest_first :: "(string \<times> nat) list \<Rightarrow> (string \<times> nat) list" where
  "longest_first xs = rev (sort_key (\<lambda>p. length (fst p)) (rev xs))"

definition name_alts :: "string list \<Rightarrow> string \<Rightarrow> (nat \<times> string) list" where
  "name_alts names s =
     concat (map (\<lambda>(nm, i). case strip_prefix_ci nm s of
                                None \<Rightarrow> [] | Some r \<Rightarrow> [(i, r)])
                 (longest_first (zip names [1..<Suc (length names)])))"

text \<open>\<open>\s+\<close>, greedy: the longest run of whitespace first, then shorter ones.\<close>

definition ws_alts :: "string \<Rightarrow> string list" where
  "ws_alts s =
     map (\<lambda>k. drop k s) (rev [1..<Suc (length (takeWhile is_space s))])"

text \<open>
  The alternatives of a directive on a text, in the order the regular expression tries
  them: each is the change to the fields and the rest of the text. \<open>zones\<close> are the
  names \<open>%Z\<close> accepts (\<open>utc\<close>, \<open>gmt\<close> and the zone names of the host).
\<close>

definition directive_alts ::
  "string list \<Rightarrow> directive \<Rightarrow> string \<Rightarrow> ((tm \<Rightarrow> tm) \<times> string) list" where
  "directive_alts zones d s =
     (case d of
        DY \<Rightarrow> map (\<lambda>(v, r). (tm_year_update (\<lambda>_. v), r)) (alt 4 (list_all is_digit) s)
      | Dm \<Rightarrow> map (\<lambda>(v, r). (tm_month_update (\<lambda>_. v), r))
                (alt 2 (two ((=) CHR ''1'') (in_range CHR ''0'' CHR ''2'')) s
                 @ alt 2 (two ((=) CHR ''0'') (in_range CHR ''1'' CHR ''9'')) s
                 @ alt 1 (one (in_range CHR ''1'' CHR ''9'')) s)
      | Dd \<Rightarrow> map (\<lambda>(v, r). (tm_day_update (\<lambda>_. v), r))
                (alt 2 (two ((=) CHR ''3'') (in_range CHR ''0'' CHR ''1'')) s
                 @ alt 2 (two (in_range CHR ''1'' CHR ''2'') is_digit) s
                 @ alt 2 (two ((=) CHR ''0'') (in_range CHR ''1'' CHR ''9'')) s
                 @ alt 1 (one (in_range CHR ''1'' CHR ''9'')) s
                 @ alt 2 (two ((=) CHR '' '') (in_range CHR ''1'' CHR ''9'')) s)
      | DH \<Rightarrow> map (\<lambda>(v, r). (tm_hour_update (\<lambda>_. v), r))
                (alt 2 (two ((=) CHR ''2'') (in_range CHR ''0'' CHR ''3'')) s
                 @ alt 2 (two (in_range CHR ''0'' CHR ''1'') is_digit) s
                 @ alt 1 (one is_digit) s)
      | DM \<Rightarrow> map (\<lambda>(v, r). (tm_minute_update (\<lambda>_. v), r))
                (alt 2 (two (in_range CHR ''0'' CHR ''5'') is_digit) s
                 @ alt 1 (one is_digit) s)
      | DS \<Rightarrow> map (\<lambda>(v, r). (tm_second_update (\<lambda>_. v), r))
                (alt 2 (two ((=) CHR ''6'') (in_range CHR ''0'' CHR ''1'')) s
                 @ alt 2 (two (in_range CHR ''0'' CHR ''5'') is_digit) s
                 @ alt 1 (one is_digit) s)
      | Df \<Rightarrow> concat (map (\<lambda>k. map (\<lambda>(v, r). (tm_fraction_update (\<lambda>_. v * 10 ^ (6 - k)), r))
                                  (alt k (list_all is_digit) s))
                         [6, 5, 4, 3, 2, 1])
      | DB \<Rightarrow> map (\<lambda>(v, r). (tm_month_update (\<lambda>_. v), r)) (name_alts month_names s)
      | Db \<Rightarrow> map (\<lambda>(v, r). (tm_month_update (\<lambda>_. v), r)) (name_alts month_abbrs s)
      | Da \<Rightarrow> map (\<lambda>(v, r). (id, r)) (name_alts day_abbrs s)
      | DZ \<Rightarrow> map (\<lambda>(v, r). (id, r)) (name_alts zones s)
      | Lit c \<Rightarrow> (case s of
                    x # r \<Rightarrow> if lower_char x = lower_char c then [(id, r)] else []
                  | [] \<Rightarrow> [])
      | WS \<Rightarrow> map (\<lambda>r. (id, r)) (ws_alts s))"

text \<open>
  The match of the whole expression, with backtracking: the first way through the
  alternatives that lets all the following directives match.
\<close>

fun regex_match :: "string list \<Rightarrow> directive list \<Rightarrow> string \<Rightarrow> tm \<Rightarrow> (tm \<times> string) option"
  and try_alts ::
    "string list \<Rightarrow> directive list \<Rightarrow> tm \<Rightarrow> ((tm \<Rightarrow> tm) \<times> string) list \<Rightarrow> (tm \<times> string) option"
  where
  "regex_match zones [] s t = Some (t, s)"
| "regex_match zones (d # ds) s t = try_alts zones ds t (directive_alts zones d s)"
| "try_alts zones ds t [] = None"
| "try_alts zones ds t ((upd, r) # others) =
     (case regex_match zones ds r (upd t) of
        Some res \<Rightarrow> Some res
      | None \<Rightarrow> try_alts zones ds t others)"

text \<open>
  \<open>strptime\<close>: \<open>None\<close> stands for its \<open>ValueError\<close> (no match, text left over, or a
  date that the \<open>datetime\<close> constructor rejects). The result is naive.
\<close>

definition strptime :: "string list \<Rightarrow> string \<Rightarrow> string \<Rightarrow> datetime option" where
  "strptime zones date_string fmt =
     (case regex_match zones (compile_format fmt) date_string tm_default of
        None \<Rightarrow> None
      | Some (t, r) \<Rightarrow>
          if r = [] \<and> valid_fields (tm_year t) (tm_month t) (tm_day t) (tm_hour t)
                         (tm_minute t) (tm_second t) (tm_fraction t)
          then Some \<lparr>year = tm_year t, month = tm_month t, day = tm_day t,
                      hour = tm_hour t, minute = tm_minute t, second = tm_second t,
                      microsecond = tm_fraction t, tzoffset = None\<rparr>
          else None)"

definition DATE_FORMATS :: "string list" where
  "DATE_FORMATS =
     [''%Y-%m-%dT%H:%M:%S.%fZ'', ''%Y-%m-%dT%H:%M:%SZ'', ''%Y-%m-%dT%H:%M:%S.%f'',
      ''%Y-%m-%dT%H:%M:%S'', ''%Y-%m-%d %H:%M:%S'', ''%Y-%m-%d'',
      ''%m/%d/%Y %H:%M:%S'', ''%m/%d/%Y'', ''%m-%d-%Y'',
      ''%d/%m/%Y %H:%M:%S'', ''%d/%m/%Y'', ''%d-%m-%Y'',
      ''%B %d, %Y'', ''%b %d, %Y'', ''%B %d %Y'', ''%b %d %Y'', ''%d %B %Y'', ''%d %b %Y'',
      ''%a, %d %b %Y %H:%M:%S GMT'', ''%a, %d %b %Y %H:%M:%S %Z'',
      ''%Y%m%d'', ''%Y%m%d%H%M%S'']"

subsection \<open>The unix timestamp step and parse\<close>

text \<open>
  \<open>float(numeric)\<close> on a text of digits and dots: digits with at most one dot, and at
  least one digit; \<open>None\<close> stands for \<open>ValueError\<close>.
\<close>

definition float_of_numeric :: "string \<Rightarrow> pyfloat option" where
  "float_of_numeric s =
     (let ip = takeWhile is_digit s; r = dropWhile is_digit s
      in case r of
           [] \<Rightarrow> if ip = [] then None else Some (round_double (of_nat (nat_of_digits ip)))
         | c # fp \<Rightarrow>
             if c = CHR ''.'' \<and> list_all is_digit fp \<and> (ip \<noteq> [] \<or> fp \<noteq> [])
             then Some (round_double (of_nat (nat_of_digits (ip @ fp)) / 10 ^ length fp))
             else None)"

text \<open>
  \<open>_try_unix_timestamp\<close>: the digits and dots of the text, read as a \<open>float\<close>; above
  \<open>1e12\<close> it is divided by 1000, above \<open>1e9\<close> it is taken as it is. The body runs under
  \<open>except (ValueError, OSError, OverflowError)\<close>, which are all the exceptions of \<open>float\<close>
  and \<open>fromtimestamp\<close>.
\<close>

definition try_unix_timestamp :: "int \<Rightarrow> string \<Rightarrow> datetime option" where
  "try_unix_timestamp utcoffset date_string =
     (let numeric = filter (\<lambda>c. is_digit c \<or> c = CHR ''.'') date_string
      in if numeric = [] then None
         else (case float_of_numeric numeric of
                 None \<Rightarrow> None
               | Some v \<Rightarrow>
                   if float_gt v (10 ^ 12) then
                     (case fromtimestamp utcoffset (PFloat (float_div v 1000)) of
                        Inl e \<Rightarrow> None | Inr dt \<Rightarrow> Some dt)
                   else if float_gt v (10 ^ 9) then
                     (case fromtimestamp utcoffset (PFloat v) of
                        Inl e \<Rightarrow> None | Inr dt \<Rightarrow> Some dt)
                   else None))"

text \<open>
  What \<open>parse\<close> depends on: \<open>dateutil\<close> is \<open>dateutil.parser.parse(s, fuzzy=True)\<close>, \<open>None\<close>
  when the package is not installed; \<open>zones\<close> are the names \<open>%Z\<close> accepts; \<open>utcoffset\<close>
  is the host's offset from UTC in seconds.
\<close>

record date_env =
  dateutil :: "(string \<Rightarrow> exn + datetime) option"
  zones :: "string list"
  utcoffset :: int

text \<open>The loop over the formats: the first one that \<open>strptime\<close> accepts.\<close>

fun first_format :: "string list \<Rightarrow> string \<Rightarrow> string list \<Rightarrow> datetime option" where
  "first_format zs date_string [] = None"
| "first_format zs date_string (fmt # fmts) =
     (case strptime zs date_string fmt of
        Some dt \<Rightarrow> Some dt
      | None \<Rightarrow> first_format zs date_string fmts)"

text \<open>
  \<open>parse\<close>, for a list of formats and a cleaning function (the two \<open>DateParser\<close> classes
  of the repository differ in both). An exception of \<open>dateutil\<close> other than
  \<open>ValueError\<close> and \<open>TypeError\<close> leaves \<open>parse\<close>.
\<close>

definition parse_with ::
  "string list \<Rightarrow> (string \<Rightarrow> string) \<Rightarrow> date_env \<Rightarrow> string \<Rightarrow> exn + datetime option" where
  "parse_with fmts clean env date_string =
     (if date_string = [] then Inr None
      else
        (let s = clean date_string
         in case (case dateutil env of None \<Rightarrow> Inl ImportError | Some f \<Rightarrow> f s) of
              Inr dt \<Rightarrow> Inr (Some dt)
            | Inl e \<Rightarrow>
                if e = ImportError \<or> e = ValueError \<or> e = TypeError then
                  (case first_format (zones env) s fmts of
                     Some dt \<Rightarrow> Inr (Some dt)
                   | None \<Rightarrow> Inr (try_unix_timestamp (utcoffset env) s))
                else Inl e))"

definition parse :: "date_env \<Rightarrow> string \<Rightarrow> exn + datetime option" where
  "parse env date_string = parse_with DATE_FORMATS clean_date_string env date_string"

section \<open>DateParser of main.py\<close>

text \<open>
  The standalone script carries its own \<open>DateParser\<close>: fewer formats (none of the compact
  ones), three prefixes, no removal of zone abbreviations.
\<close>

definition DATE_FORMATS_main :: "string list" where
  "DATE_FORMATS_main =
     [''%Y-%m-%dT%H:%M:%S.%fZ'', ''%Y-%m-%dT%H:%M:%SZ'', ''%Y-%m-%dT%H:%M:%S.%f'',
      ''%Y-%m-%dT%H:%M:%S'', ''%Y-%m-%d %H:%M:%S'', ''%Y-%m-%d'',
      ''%m/%d/%Y %H:%M:%S'', ''%m/%d/%Y'',
      ''%B %d, %Y'', ''%b %d, %Y'', ''%B %d %Y'', ''%b %d %Y'', ''%d %B %Y'', ''%d %b %Y'',
      ''%a, %d %b %Y %H:%M:%S GMT'', ''%a, %d %b %Y %H:%M:%S %Z'']"

definition prefixes_main :: "prefix_pattern list" where
  "prefixes_main =
     [TwoWords ''Last'' [''Updated'', ''Modified''], OneWord ''Updated'', OneWord ''Modified'']"

definition clean_date_string_main :: "string \<Rightarrow> string" where
  "clean_date_string_main date_string =
     strip (foldl (\<lambda>s p. remove_prefix p s) (join_space (split_ws date_string)) prefixes_main)"

definition parse_main :: "date_env \<Rightarrow> string \<Rightarrow> exn + datetime option" where
  "parse_main env date_string =
     parse_with DATE_FORMATS_main clean_date_string_main env date_string"

section \<open>The network\<close>

text \<open>
  A request raises a \<open>RequestException\<close> or returns a response: status, headers, body.
  \<open>request m i\<close> is the outcome of the \<open>i\<close>-th request made with method \<open>m\<close>. \<open>loads\<close> is
  \<open>json.loads\<close> on a body, \<open>xml_text\<close> is \<open>ElementTree\<close> on a body (\<open>None\<close> when it does not
  parse; otherwise the text of the first element of a name, \<open>None\<close> when there is no such
  element or it has no text), \<open>parsedate\<close> is \<open>email.utils.parsedate_to_datetime\<close>
  (\<open>None\<close> for its \<open>ValueError\<close> or \<open>TypeError\<close>).
\<close>

datatype http_outcome = RequestFailed | Response nat "(string \<times> string) list" string

record net =
  request :: "string \<Rightarrow> nat \<Rightarrow> http_outcome"
  loads :: "string \<Rightarrow> loads_result"
  xml_text :: "string \<Rightarrow> (string \<Rightarrow> string option) option"
  parsedate :: "string \<Rightarrow> datetime option"

text \<open>\<open>raise_for_status\<close> raises for the statuses 400 to 599.\<close>

definition status_raises :: "nat \<Rightarrow> bool" where
  "status_raises st = (400 \<le> st \<and> st < 600)"

text \<open>Header lookup, without regard to case.\<close>

definition header :: "(string \<times> string) list \<Rightarrow> string \<Rightarrow> string option" where
  "header hs name = map_of (map (\<lambda>(k, v). (lower k, v)) hs) (lower name)"

section \<open>API handler (handlers/api_handler.py)\<close>

text \<open>
  \<open>_find_timestamp_value\<close>: in an object, the value of the first of the fields that is a
  key, else the first truthy result among the values; in a list, the result for its first
  element; \<open>None\<close> otherwise.
\<close>

fun find_timestamp_value :: "string list \<Rightarrow> json \<Rightarrow> json"
  and find_in_values :: "string list \<Rightarrow> (string \<times> json) list \<Rightarrow> json" where
  "find_timestamp_value field_names (JDict kvs) =
     (case List.find (\<lambda>f. f \<in> fst ` set kvs) field_names of
        Some f \<Rightarrow> jget kvs f JNull
      | None \<Rightarrow> find_in_values field_names kvs)"
| "find_timestamp_value field_names (JList xs) =
     (case xs of [] \<Rightarrow> JNull | x # _ \<Rightarrow> find_timestamp_value field_names x)"
| "find_timestamp_value field_names JNull = JNull"
| "find_timestamp_value field_names (JBool b) = JNull"
| "find_timestamp_value field_names (JInt n) = JNull"
| "find_timestamp_value field_names (JFloat r) = JNull"
| "find_timestamp_value field_names (JStr s) = JNull"
| "find_in_values field_names [] = JNull"
| "find_in_values field_names (kv # kvs) =
     (let result = find_timestamp_value field_names (snd kv)
      in if truthy result then result else find_in_values field_names kvs)"

text \<open>
  \<open>_parse_timestamp_value\<close>: a number is a unix timestamp, in milliseconds when it is
  above \<open>1e12\<close>; of the exceptions of the division and of \<open>fromtimestamp\<close> only
  \<open>ValueError\<close> and \<open>OSError\<close> are caught; a string goes to \<open>parse\<close>. The parser is an
  argument, since the two handlers use different ones.
\<close>

definition number_of :: "json \<Rightarrow> pynum option" where
  "number_of v =
     (case v of JInt n \<Rightarrow> Some (PInt n) | JFloat f \<Rightarrow> Some (PFloat f)
      | JBool b \<Rightarrow> Some (PInt (if b then 1 else 0)) | _ \<Rightarrow> None)"

definition parse_timestamp_value ::
  "(string \<Rightarrow> exn + datetime option) \<Rightarrow> int \<Rightarrow> json \<Rightarrow> exn + datetime option" where
  "parse_timestamp_value parser utcoff v =
     (case number_of v of
        Some x \<Rightarrow>
          (case (if num_gt x (10 ^ 12)
                 then (case num_div x 1000 of
                         Inl e \<Rightarrow> Inl e
                       | Inr q \<Rightarrow> fromtimestamp utcoff (PFloat q))
                 else fromtimestamp utcoff x) of
             Inr dt \<Rightarrow> Inr (Some dt)
           | Inl e \<Rightarrow> if e = ValueError \<or> e = OSError then Inr None else Inl e)
      | None \<Rightarrow> (case v of JStr s \<Rightarrow> parser s | _ \<Rightarrow> Inr None))"

definition default_fallback_fields :: "string list" where
  "default_fallback_fields =
     [''lastModified'', ''modified'', ''updatedAt'', ''last_updated'', ''dataUpdatedAt'',
      ''rowsUpdatedAt'', ''metadataUpdatedAt'']"

definition parse_json_response ::
  "(string \<Rightarrow> exn + datetime option) \<Rightarrow> int \<Rightarrow> net \<Rightarrow> config \<Rightarrow> string
     \<Rightarrow> exn + datetime option" where
  "parse_json_response parser utcoff nt cfg content =
     (case loads nt content of
        DecodeError \<Rightarrow> Inr None
      | LoadsRaised e \<Rightarrow> Inl e
      | Loaded data \<Rightarrow>
          (let timestamp_field = get_str_or cfg ''timestamp_field'' ''updated_at'';
               fallback_fields = (case get_strs cfg ''fallback_fields'' of
                                    Some fs \<Rightarrow> fs | None \<Rightarrow> default_fallback_fields);
               timestamp_value =
                 find_timestamp_value (timestamp_field # fallback_fields) data
           in if truthy timestamp_value
              then parse_timestamp_value parser utcoff timestamp_value
              else Inr None))"

text \<open>\<open>_parse_xml_response\<close> runs under \<open>except Exception\<close>.\<close>

definition parse_xml_response :: "date_env \<Rightarrow> net \<Rightarrow> config \<Rightarrow> string \<Rightarrow> datetime option" where
  "parse_xml_response env nt cfg content =
     (case xml_text nt content of
        None \<Rightarrow> None
      | Some find_text \<Rightarrow>
          (let field_names = get_str_or cfg ''timestamp_field'' ''updated_at''
                 # (case get_strs cfg ''fallback_fields'' of Some fs \<Rightarrow> fs | None \<Rightarrow> [])
           in case List.find (\<lambda>f. truthy_str (find_text f)) field_names of
                None \<Rightarrow> None
              | Some f \<Rightarrow>
                  (case parse env (the (find_text f)) of Inl e \<Rightarrow> None | Inr r \<Rightarrow> r)))"

definition api_parse_response :: "date_env \<Rightarrow> net \<Rightarrow> config \<Rightarrow> string \<Rightarrow> exn + datetime option" where
  "api_parse_response env nt cfg content =
     (let response_format = get_str_or cfg ''response_format'' ''json''
      in if response_format = ''json''
         then parse_json_response (parse env) (utcoffset env) nt cfg content
         else if response_format = ''xml'' then Inr (parse_xml_response env nt cfg content)
         else Inr None)"

text \<open>
  The retry loop: \<open>k\<close> attempts are left and \<open>attempt\<close> were made. The function returns
  what \<open>fetch_current_timestamp\<close> returns or raises, and the methods of the requests it
  made, in order.
\<close>

fun api_attempts ::
  "date_env \<Rightarrow> net \<Rightarrow> config \<Rightarrow> nat \<Rightarrow> nat \<Rightarrow> (exn + datetime option) \<times> string list" where
  "api_attempts env nt cfg 0 attempt = (Inr None, [])"
| "api_attempts env nt cfg (Suc k) attempt =
     (let failed = (if k = 0 then (Inr None, [''GET''])
                    else apsnd ((#) ''GET'') (api_attempts env nt cfg k (Suc attempt)))
      in case request nt ''GET'' attempt of
           RequestFailed \<Rightarrow> failed
         | Response st hs body \<Rightarrow>
             if status_raises st then failed
             else (api_parse_response env nt cfg body, [''GET'']))"

definition api_fetch_current_timestamp ::
  "date_env \<Rightarrow> net \<Rightarrow> int \<Rightarrow> config \<Rightarrow> (exn + datetime option) \<times> string list" where
  "api_fetch_current_timestamp env nt max_retries cfg =
     (if \<not> truthy_str (get_str cfg ''data_url'') then (Inr None, [])
      else api_attempts env nt cfg (nat max_retries) 0)"

section \<open>API handler of main.py\<close>

definition methods_to_try :: "config \<Rightarrow> string list" where
  "methods_to_try cfg =
     (let http_method = upper (get_str_or cfg ''http_method'' ''GET'')
      in http_method #
         (if http_method = ''GET'' then [''HEAD'', ''POST'']
          else if http_method = ''POST'' then [''GET'', ''HEAD''] else []))"

definition main_head_response :: "date_env \<Rightarrow> net \<Rightarrow> (string \<times> string) list \<Rightarrow> exn + datetime option" where
  "main_head_response env nt hs =
     (if truthy_str (header hs ''Last-Modified'') then
        (case parsedate nt (the (header hs ''Last-Modified'')) of
           Some dt \<Rightarrow> Inr (Some dt)
         | None \<Rightarrow> parse_main env (the (header hs ''Last-Modified'')))
      else Inr None)"

fun main_api_methods ::
  "date_env \<Rightarrow> net \<Rightarrow> config \<Rightarrow> string list \<Rightarrow> (exn + datetime option) \<times> string list" where
  "main_api_methods env nt cfg [] = (Inr None, [])"
| "main_api_methods env nt cfg (m # ms) =
     (if m \<noteq> ''GET'' \<and> m \<noteq> ''HEAD'' \<and> m \<noteq> ''POST'' then main_api_methods env nt cfg ms
      else
        (let next_method = apsnd ((#) m) (main_api_methods env nt cfg ms)
         in case request nt m 0 of
              RequestFailed \<Rightarrow> next_method
            | Response st hs body \<Rightarrow>
                if st = 405 then next_method
                else if status_raises st then next_method
                else if m = ''HEAD'' then (main_head_response env nt hs, [m])
                else (parse_json_response (parse_main env) (utcoffset env) nt cfg body, [m])))"

definition main_api_fetch_current_timestamp ::
  "date_env \<Rightarrow> net \<Rightarrow> config \<Rightarrow> (exn + datetime option) \<times> string list" where
  "main_api_fetch_current_timestamp env nt cfg =
     (if \<not> truthy_str (get_str cfg ''data_url'') then (Inr None, [])
      else main_api_methods env nt cfg (methods_to_try cfg))"

section \<open>Selenium handler (handlers/selenium_handler.py)\<close>

text \<open>
  The loaded page, as the handler reads it: \<open>find_elements sel\<close> gives the texts of the
  elements of a selector, or raises; \<open>body_search i\<close> is the first group of the first
  match of the \<open>i\<close>-th date pattern in the text of the body (\<open>re.search\<close>), \<open>body_raises\<close>
  says that reading the body raises. For the handler of main.py, \<open>text_findall i\<close> is
  \<open>re.findall\<close> of its \<open>i\<close>-th pattern on the page text (the text of the body, or the page
  source when the body cannot be read) and \<open>source_search i\<close> is the first group of the
  first match of its \<open>i\<close>-th JSON pattern in the page source.
\<close>

record page =
  find_elements :: "string \<Rightarrow> exn + string list"
  body_raises :: bool
  body_search :: "nat \<Rightarrow> string option"
  text_findall :: "nat \<Rightarrow> string list"
  source_search :: "nat \<Rightarrow> string option"

datatype load_outcome =
    ImportFailed | LoadTimeout | LoadWebDriverError | LoadRaised exn | PageLoaded page

text \<open>\<open>s.split(',')\<close>.\<close>

fun split_comma_acc :: "string \<Rightarrow> string \<Rightarrow> string list" where
  "split_comma_acc acc [] = [rev acc]"
| "split_comma_acc acc (c # cs) =
     (if c = CHR '','' then rev acc # split_comma_acc [] cs else split_comma_acc (c # acc) cs)"

definition split_comma :: "string \<Rightarrow> string list" where
  "split_comma s = split_comma_acc [] s"

text \<open>
  The loop over the elements of one selector. \<open>Inl\<close> is an exception of \<open>parse\<close>, which
  the \<open>except Exception\<close> around the selector catches.
\<close>

fun scan_elements ::
  "(string \<Rightarrow> exn + datetime option) \<Rightarrow> string list \<Rightarrow> exn + datetime option" where
  "scan_elements parser [] = Inr None"
| "scan_elements parser (t # ts) =
     (let txt = strip t
      in if txt \<noteq> [] then
           (case parser txt of
              Inl e \<Rightarrow> Inl e
            | Inr (Some parsed) \<Rightarrow> Inr (Some parsed)
            | Inr None \<Rightarrow> scan_elements parser ts)
         else scan_elements parser ts)"

fun scan_selectors ::
  "(string \<Rightarrow> exn + datetime option) \<Rightarrow> page \<Rightarrow> string list \<Rightarrow> datetime option" where
  "scan_selectors parser pg [] = None"
| "scan_selectors parser pg (selector # selectors) =
     (case find_elements pg selector of
        Inl e \<Rightarrow> scan_selectors parser pg selectors
      | Inr elements \<Rightarrow>
          (case scan_elements parser elements of
             Inl e \<Rightarrow> scan_selectors parser pg selectors
           | Inr (Some parsed) \<Rightarrow> Some parsed
           | Inr None \<Rightarrow> scan_selectors parser pg selectors))"





section \<open>Selenium handler of main.py\<close>

text \<open>
  The three stages of the scan of main.py. Only the second one, over the eight patterns
  of dates in the page text, checks the year and the clock.
\<close>

definition main_selector_stage :: "date_env \<Rightarrow> config \<Rightarrow> page \<Rightarrow> datetime option" where
  "main_selector_stage env cfg pg =
     scan_selectors (parse_main env) pg
       (filter (\<lambda>s. s \<noteq> []) (map strip (split_comma (get_str_or cfg ''selector'' []))))"

fun accept_matches :: "date_env \<Rightarrow> datetime \<Rightarrow> string list \<Rightarrow> exn + datetime option" where
  "accept_matches env clock [] = Inr None"
| "accept_matches env clock (date_str # matches) =
     (case parse_main env date_str of
        Inl e \<Rightarrow> Inl e
      | Inr None \<Rightarrow> accept_matches env clock matches
      | Inr (Some parsed) \<Rightarrow>
          if year parsed \<ge> 2020 then
            (case dt_le parsed clock of
               Inl e \<Rightarrow> Inl e
             | Inr True \<Rightarrow> Inr (Some parsed)
             | Inr False \<Rightarrow> accept_matches env clock matches)
          else accept_matches env clock matches)"

fun main_pattern_stage :: "date_env \<Rightarrow> datetime \<Rightarrow> page \<Rightarrow> nat list \<Rightarrow> exn + datetime option" where
  "main_pattern_stage env clock pg [] = Inr None"
| "main_pattern_stage env clock pg (i # is) =
     (case accept_matches env clock (text_findall pg i) of
        Inl e \<Rightarrow> Inl e
      | Inr (Some parsed) \<Rightarrow> Inr (Some parsed)
      | Inr None \<Rightarrow> main_pattern_stage env clock pg is)"

fun main_json_stage :: "date_env \<Rightarrow> page \<Rightarrow> nat list \<Rightarrow> exn + datetime option" where
  "main_json_stage env pg [] = Inr None"
| "main_json_stage env pg (i # is) =
     (case source_search pg i of
        None \<Rightarrow> main_json_stage env pg is
      | Some v \<Rightarrow>
          (case parse_main env v of
             Inl e \<Rightarrow> Inl e
           | Inr (Some parsed) \<Rightarrow> Inr (Some parsed)
           | Inr None \<Rightarrow> main_json_stage env pg is))"

text \<open>
  \<open>fetch_current_timestamp\<close> of main.py runs under \<open>except Exception\<close>: every exception
  gives \<open>None\<close>. \<open>clock\<close> is \<open>datetime.now()\<close>.
\<close>

definition main_selenium_fetch_current_timestamp ::
  "date_env \<Rightarrow> datetime \<Rightarrow> config \<Rightarrow> load_outcome \<Rightarrow> datetime option" where
  "main_selenium_fetch_current_timestamp env clock cfg outcome =
     (if \<not> truthy_str (get_str cfg ''data_url'') then None
      else (case outcome of
              PageLoaded pg \<Rightarrow>
                (case main_selector_stage env cfg pg of
                   Some parsed \<Rightarrow> Some parsed
                 | None \<Rightarrow>
                     (case main_pattern_stage env clock pg [0..<8] of
                        Inl e \<Rightarrow> None
                      | Inr (Some parsed) \<Rightarrow> Some parsed
                      | Inr None \<Rightarrow>
                          (case main_json_stage env pg [0..<2] of
                             Inl e \<Rightarrow> None
                           | Inr r \<Rightarrow> r)))
            | _ \<Rightarrow> None))"

text \<open>
  For main.py's handler: the methods it can request, and when a method is passed over (the
  request fails, or the status is 405 or another one that \<open>raise_for_status\<close> raises for).
\<close>

definition supported :: "string \<Rightarrow> bool" where
  "supported m = (m = ''GET'' \<or> m = ''HEAD'' \<or> m = ''POST'')"

definition skipped :: "net \<Rightarrow> string \<Rightarrow> bool" where
  "skipped nt m =
     (case request nt m 0 of
        RequestFailed \<Rightarrow> True
      | Response st hs body \<Rightarrow> st = 405 \<or> status_raises st)"

section \<open>Example inputs\<close>

text \<open>
  \<open>T0\<close> and \<open>T2\<close> are aware (UTC), \<open>T1\<close> is naive; \<open>T1\<close> is what \<open>parsedate_to_datetime\<close>
  returns for a header that ends in \<open>-0000\<close>.
\<close>

definition T0 :: datetime where
  "T0 = \<lparr>year = 2025, month = 1, day = 15, hour = 10, minute = 30, second = 0,
         microsecond = 0, tzoffset = Some 0\<rparr>"

definition T1 :: datetime where
  "T1 = \<lparr>year = 2025, month = 1, day = 16, hour = 0, minute = 0, second = 0,
         microsecond = 0, tzoffset = None\<rparr>"

definition T2 :: datetime where
  "T2 = \<lparr>year = 2025, month = 1, day = 16, hour = 0, minute = 0, second = 0,
         microsecond = 0, tzoffset = Some 0\<rparr>"

definition sources_http :: registry where
  "sources_http =
     [''src'' \<mapsto> [(''method'', CStr ''http_head''),
                  (''data_url'', CStr ''https://example.com/data.csv'')]]"

definition sources_ftp :: registry where
  "sources_ftp =
     [''src'' \<mapsto> [(''method'', CStr ''ftp''),
                  (''data_url'', CStr ''ftp://example.com/data.csv'')]]"


definition sm_T0 :: state_manager where
  "sm_T0 =
     \<lparr>state = [''src'' \<mapsto> [''timestamp'' \<mapsto> ''2025-01-15T10:30:00+00:00'']],
      disk = [''src'' \<mapsto> [''timestamp'' \<mapsto> ''2025-01-15T10:30:00+00:00'']]\<rparr>"

definition env_plain :: verifier_env where
  "env_plain =
     \<lparr>json_loads = (\<lambda>s. DecodeError), float_of_str = (\<lambda>s. None),
      str_of_exn = (\<lambda>e. ''error''),
      chat = (\<lambda>a b c d. ChatContent (Some ''I cannot tell.''))\<rparr>"

definition attrs_http :: handler_attrs where
  "attrs_http =
     \<lparr>h_raw_timestamp = Some ''Thu, 16 Jan 2025 00:00:00 -0000'', h_etag = None,
      h_page_content = None\<rparr>"

definition world_returning :: "datetime option \<Rightarrow> world" where
  "world_returning cur =
     \<lparr>w_fetch = (\<lambda>kind config. FetchReturned cur attrs_http), w_now = T1, w_io_ok = True,
      w_venv = env_plain\<rparr>"

definition env_no_dateutil :: date_env where
  "env_no_dateutil = \<lparr>dateutil = None, zones = [''utc'', ''gmt''], utcoffset = 0\<rparr>"

definition dt_1705 :: datetime where
  "dt_1705 = \<lparr>year = 1705, month = 3, day = 15, hour = 8, minute = 0, second = 0,
            microsecond = 0, tzoffset = None\<rparr>"

definition dt_2024 :: datetime where
  "dt_2024 = \<lparr>year = 2024, month = 1, day = 15, hour = 10, minute = 50, second = 0,
            microsecond = 0, tzoffset = None\<rparr>"

definition cfg_api :: config where
  "cfg_api = [(''method'', CStr ''api''), (''data_url'', CStr ''https://api.example.com/meta'')]"

definition body_overflow :: string where
  "body_overflow = ''{'' @ [CHR 0x22] @ ''updated_at'' @ [CHR 0x22] @ '': 10000000000000000000000}''"

definition net_overflow :: net where
  "net_overflow =
     \<lparr>request = (\<lambda>m i. Response 200 [] body_overflow),
      loads = (\<lambda>s. if s = body_overflow
                    then Loaded (JDict [(''updated_at'', JInt 10000000000000000000000)])
                    else DecodeError),
      xml_text = (\<lambda>s. None), parsedate = (\<lambda>s. None)\<rparr>"

definition body_ok :: string where
  "body_ok = ''{'' @ [CHR 0x22] @ ''updated_at'' @ [CHR 0x22] @ '': 1705315800}''"

definition net_get_not_allowed :: net where
  "net_get_not_allowed =
     \<lparr>request = (\<lambda>m i. if m = ''POST'' then Response 200 [] body_ok else Response 405 [] []),
      loads = (\<lambda>s. if s = body_ok then Loaded (JDict [(''updated_at'', JInt 1705315800)])
                    else DecodeError),
      xml_text = (\<lambda>s. None), parsedate = (\<lambda>s. None)\<rparr>"

definition cfg_selenium :: config where
  "cfg_selenium =
     [(''method'', CStr ''selenium''), (''data_url'', CStr ''https://example.com/page''),
      (''selector'', CStr ''.updated'')]"

definition page_old :: page where
  "page_old =
     \<lparr>find_elements = (\<lambda>sel. if sel = ''.updated'' then Inr [''1999-12-31''] else Inr []),
      body_raises = False, body_search = (\<lambda>i. None),
      text_findall = (\<lambda>i. if i = 6 then [''1999-12-31'', ''2024-01-15''] else []),
      source_search = (\<lambda>i. None)\<rparr>"

definition dt_1999 :: datetime where
  "dt_1999 = \<lparr>year = 1999, month = 12, day = 31, hour = 0, minute = 0, second = 0,
            microsecond = 0, tzoffset = None\<rparr>"





text \<open>A service whose reply is the empty JSON object.\<close>

definition env_empty_object :: verifier_env where
  "env_empty_object =
     \<lparr>json_loads = (\<lambda>s. if s = ''{}'' then Loaded (JDict []) else DecodeError),
      float_of_str = (\<lambda>s. None), str_of_exn = (\<lambda>e. ''error''),
      chat = (\<lambda>a b c d. ChatContent (Some ''{}''))\<rparr>"

definition negative_verdict :: verification where
  "negative_verdict =
     \<lparr>v_is_verified = JBool False, v_confidence = JFloat (Num 0), v_reasoning = JStr [],
      v_suggested_timestamp = JNull, v_error = None\<rparr>"

section \<open>Properties\<close>

subsection \<open>Fixed-width decimals\<close>

lemma digits_table:
  "list_all (\<lambda>k. is_digit (''0123456789'' ! k) \<and> digit_val (''0123456789'' ! k) = k) [0..<10]"
  by code_simp

lemma digit_char_props: "is_digit (digit_char d) \<and> digit_val (digit_char d) = d mod 10"
proof -
  have "d mod 10 \<in> set [0..<10]" by simp
  with digits_table show ?thesis
    unfolding digit_char_def list_all_iff by blast
qed

lemma is_digit_digit_char: "is_digit (digit_char d)"
  by (simp add: digit_char_props)

lemma digit_val_digit_char: "digit_val (digit_char d) = d mod 10"
  by (simp add: digit_char_props)

lemma length_pad: "length (pad k n) = k"
  by (induction k arbitrary: n) simp_all

lemma list_all_digit_pad: "list_all is_digit (pad k n)"
  by (induction k arbitrary: n) (simp_all add: is_digit_digit_char)

lemma nat_of_digits_pad: "nat_of_digits (pad k n) = n mod 10 ^ k"
proof (induction k arbitrary: n)
  case 0
  show ?case by (simp add: nat_of_digits_def)
next
  case (Suc k)
  have "nat_of_digits (pad (Suc k) n) = 10 * nat_of_digits (pad k (n div 10)) + n mod 10"
    by (simp add: nat_of_digits_def digit_val_digit_char)
  also have "\<dots> = 10 * ((n div 10) mod 10 ^ k) + n mod 10"
    by (simp add: Suc.IH)
  also have "\<dots> = n mod 10 ^ Suc k"
    by (simp add: mod_mult2_eq)
  finally show ?case .
qed

subsection \<open>Serialisation of datetimes\<close>

lemma replace_Z_id: "CHR ''Z'' \<notin> set s \<Longrightarrow> replace_Z s = s"
  by (induction s) auto

lemma not_digit_Z: "\<not> is_digit CHR ''Z''"
  by (simp add: is_digit_def)

lemma Z_notin_pad: "CHR ''Z'' \<notin> set (pad k n)"
  using list_all_digit_pad [of k n] not_digit_Z by (auto simp: list_all_iff)

lemma Z_notin_format_offset: "CHR ''Z'' \<notin> set (format_offset tz)"
  by (cases tz) (auto simp: format_offset_def Let_def Z_notin_pad)

lemma Z_notin_isoformat: "CHR ''Z'' \<notin> set (isoformat dt)"
  by (auto simp: isoformat_def isoformat_sep_def Z_notin_pad Z_notin_format_offset)

subsection \<open>The bytes of a decimal field\<close>

lemma utf8_ascii:
  "list_all (\<lambda>c. (of_char c :: nat) < 128) s \<Longrightarrow> utf8 s = map of_char s"
  by (induction s) (simp_all add: utf8_def)

lemma is_digit_byte_of_char: "is_digit_byte (of_char c) = is_digit c"
  by (simp add: is_digit_byte_def is_digit_def)

lemma digit_ascii: "is_digit c \<Longrightarrow> (of_char c :: nat) < 128"
  by (simp add: is_digit_def)

lemma pad_ascii: "list_all (\<lambda>c. (of_char c :: nat) < 128) (pad k n)"
  using list_all_digit_pad [of k n] by (auto simp: list_all_iff digit_ascii)

lemma pad_bytes_digits: "list_all is_digit_byte (map of_char (pad k n))"
  using list_all_digit_pad [of k n] by (simp add: list_all_iff is_digit_byte_of_char)

lemma foldl_bytes: "foldl (\<lambda>a b. 10 * a + (b - 48)) 0 (map of_char cs) = nat_of_digits cs"
  by (simp add: nat_of_digits_def digit_val_def foldl_map)

lemma parse_digits_pad:
  "n < 10 ^ k \<Longrightarrow> parse_digits (map of_char (pad k n) @ r) k = Some (n, r)"
  by (simp add: parse_digits_def length_pad pad_bytes_digits foldl_bytes nat_of_digits_pad)

lemma parse_digits_pad2:
  "n < 100 \<Longrightarrow> parse_digits (map of_char (pad 2 n) @ r) 2 = Some (n, r)"
  using parse_digits_pad [of n 2 r] by simp

lemma parse_digits_pad4:
  "n < 10000 \<Longrightarrow> parse_digits (map of_char (pad 4 n) @ r) 4 = Some (n, r)"
  using parse_digits_pad [of n 4 r] by simp

lemma parse_digits_pad6:
  "n < 1000000 \<Longrightarrow> parse_digits (map of_char (pad 6 n) @ r) 6 = Some (n, r)"
  using parse_digits_pad [of n 6 r] by simp

lemma peek_pad: "0 < k \<Longrightarrow> is_digit_byte (peek (map of_char (pad k n) @ r))"
proof -
  assume "0 < k"
  then have ne: "pad k n \<noteq> []" using length_pad [of k n] by auto
  then obtain c cs where p: "pad k n = c # cs" by (cases "pad k n") auto
  with list_all_digit_pad [of k n] have "is_digit c" by simp
  with p show ?thesis by (simp add: peek_def is_digit_byte_of_char)
qed

lemma peek_pad2: "is_digit_byte (peek (map of_char (pad 2 n) @ r))"
  by (rule peek_pad) simp

lemma digit_byte_facts:
  "is_digit_byte b \<Longrightarrow> b \<noteq> 87 \<and> b \<noteq> 45 \<and> b \<noteq> 58 \<and> b \<noteq> 46 \<and> b \<noteq> 44 \<and> b \<noteq> 90
     \<and> b \<noteq> 43 \<and> b \<noteq> 0 \<and> b < 128"
  by (simp add: is_digit_byte_def)


subsection \<open>The field list of a time and of an offset\<close>

lemma hms_step_colon:
  assumes "v < 100" "3 < left" "k = 2 \<or> has_separator"
  shows "hms_fields (Suc k) has_separator (map of_char (pad 2 v) @ 58 # r) left
           = hms_cons v (hms_fields k True r (left - 3))"
  using assms by (auto simp: parse_digits_pad2 peek_def Let_def simp del: pad.simps)

lemma hms_step_return:
  assumes "v < 100" "left \<le> 3"
  shows "hms_fields (Suc k) has_separator (map of_char (pad 2 v) @ r) left
           = HmsReturn [v] (peek r \<noteq> 0)"
  using assms by (simp add: parse_digits_pad2 Let_def del: pad.simps)

lemma hms_step_fraction:
  assumes "v < 100" "3 < left" "k \<noteq> 2"
  shows "hms_fields (Suc k) True (map of_char (pad 2 v) @ 46 # r) left
           = HmsFraction [v] r (left - 3)"
  using assms by (simp add: parse_digits_pad2 peek_def Let_def del: pad.simps)

lemma hms_fields_hms:
  assumes "h < 100" "m < 100" "s < 100"
  shows "hms_fields 3 True
           (map of_char (pad 2 h) @ 58 # map of_char (pad 2 m) @ 58 # map of_char (pad 2 s) @ r) 8
         = HmsReturn [h, m, s] (peek r \<noteq> 0)"
proof -
  have a: "hms_fields (Suc 0) True (map of_char (pad 2 s) @ r) 2 = HmsReturn [s] (peek r \<noteq> 0)"
    using assms by (intro hms_step_return) simp_all
  have b: "hms_fields (Suc (Suc 0)) True (map of_char (pad 2 m) @ 58 # map of_char (pad 2 s) @ r) 5
      = hms_cons m (hms_fields (Suc 0) True (map of_char (pad 2 s) @ r) (5 - 3))"
    using assms by (intro hms_step_colon) simp_all
  have c: "hms_fields (Suc (Suc (Suc 0))) True
      (map of_char (pad 2 h) @ 58 # map of_char (pad 2 m) @ 58 # map of_char (pad 2 s) @ r) 8
      = hms_cons h (hms_fields (Suc (Suc 0)) True
          (map of_char (pad 2 m) @ 58 # map of_char (pad 2 s) @ r) (8 - 3))"
    using assms by (intro hms_step_colon) simp_all
  have n: "(8::int) - 3 = 5" "(5::int) - 3 = 2" by simp_all
  show ?thesis
    unfolding numeral_3_eq_3 c n b a by simp
qed

lemma hms_fields_hms_fraction:
  assumes "h < 100" "m < 100" "s < 100"
  shows "hms_fields 3 True
           (map of_char (pad 2 h) @ 58 # map of_char (pad 2 m) @ 58 # map of_char (pad 2 s)
              @ 46 # r) 15
         = HmsFraction [h, m, s] r 6"
proof -
  have a: "hms_fields (Suc 0) True (map of_char (pad 2 s) @ 46 # r) 9 = HmsFraction [s] r (9 - 3)"
    using assms by (intro hms_step_fraction) simp_all
  have b: "hms_fields (Suc (Suc 0)) True
      (map of_char (pad 2 m) @ 58 # map of_char (pad 2 s) @ 46 # r) 12
      = hms_cons m (hms_fields (Suc 0) True (map of_char (pad 2 s) @ 46 # r) (12 - 3))"
    using assms by (intro hms_step_colon) simp_all
  have c: "hms_fields (Suc (Suc (Suc 0))) True
      (map of_char (pad 2 h) @ 58 # map of_char (pad 2 m) @ 58 # map of_char (pad 2 s) @ 46 # r) 15
      = hms_cons h (hms_fields (Suc (Suc 0)) True
          (map of_char (pad 2 m) @ 58 # map of_char (pad 2 s) @ 46 # r) (15 - 3))"
    using assms by (intro hms_step_colon) simp_all
  have n: "(15::int) - 3 = 12" "(12::int) - 3 = 9" "(9::int) - 3 = 6" by simp_all
  show ?thesis
    unfolding numeral_3_eq_3 c n b a by simp
qed

lemma hms_fields_hm:
  assumes "h < 100" "m < 100"
  shows "hms_fields 3 True (map of_char (pad 2 h) @ 58 # map of_char (pad 2 m) @ r) 5
         = HmsReturn [h, m] (peek r \<noteq> 0)"
proof -
  have b: "hms_fields (Suc (Suc 0)) True (map of_char (pad 2 m) @ r) 2
      = HmsReturn [m] (peek r \<noteq> 0)"
    using assms by (intro hms_step_return) simp_all
  have c: "hms_fields (Suc (Suc (Suc 0))) True
      (map of_char (pad 2 h) @ 58 # map of_char (pad 2 m) @ r) 5
      = hms_cons h (hms_fields (Suc (Suc 0)) True (map of_char (pad 2 m) @ r) (5 - 3))"
    using assms by (intro hms_step_colon) simp_all
  have n: "(5::int) - 3 = 2" by simp
  show ?thesis
    unfolding numeral_3_eq_3 c n b by simp
qed

lemma parse_hms:
  assumes "h < 100" "m < 100" "s < 100"
  shows "parse_hh_mm_ss_ff
           (map of_char (pad 2 h) @ 58 # map of_char (pad 2 m) @ 58 # map of_char (pad 2 s) @ r) 8
         = Some ((h, m, s, 0), peek r \<noteq> 0)"
  by (simp add: parse_hh_mm_ss_ff_def hms_fields_hms [OF assms] del: pad.simps hms_fields.simps)

lemma parse_hms_fraction:
  assumes "h < 100" "m < 100" "s < 100" "us < 1000000" "\<not> is_digit_byte (peek r)"
  shows "parse_hh_mm_ss_ff
           (map of_char (pad 2 h) @ 58 # map of_char (pad 2 m) @ 58 # map of_char (pad 2 s)
              @ 46 # map of_char (pad 6 us) @ r) 15
         = Some ((h, m, s, us), peek r \<noteq> 0)"
proof -
  have dw: "dropWhile is_digit_byte r = r"
    using assms(5) by (cases r) (simp_all add: peek_def)
  show ?thesis
    using assms(4)
    by (simp add: parse_hh_mm_ss_ff_def hms_fields_hms_fraction [OF assms(1-3)]
        parse_digits_pad6 dw del: pad.simps hms_fields.simps)
qed

lemma parse_hm:
  assumes "h < 100" "m < 100"
  shows "parse_hh_mm_ss_ff (map of_char (pad 2 h) @ 58 # map of_char (pad 2 m) @ r) 5
         = Some ((h, m, 0, 0), peek r \<noteq> 0)"
  by (simp add: parse_hh_mm_ss_ff_def hms_fields_hm [OF assms] del: pad.simps hms_fields.simps)


subsection \<open>The offset that isoformat writes\<close>

lemma format_offset_bytes:
  assumes "\<bar>off\<bar> < 86400000000"
  defines "a \<equiv> nat \<bar>off\<bar>"
  shows "\<exists>ob. map of_char (format_offset (Some off)) = (if off < 0 then 45 else 43) # ob \<and>
           parse_hh_mm_ss_ff ob (int (length ob))
             = Some ((a div 3600000000, (a div 60000000) mod 60, (a div 1000000) mod 60,
                      a mod 1000000), False)"
proof -
  define hh where "hh = a div 3600000000"
  define mm where "mm = (a div 60000000) mod 60"
  define ss where "ss = (a div 1000000) mod 60"
  define us where "us = a mod 1000000"
  have a: "a < 86400000000" using assms by simp
  have hh: "hh < 100" using a by (simp add: hh_def)
  have mm: "mm < 100" by (simp add: mm_def)
  have ss: "ss < 100" by (simp add: ss_def)
  have us: "us < 1000000" by (simp add: us_def)
  define ob :: "nat list" where "ob = map of_char (pad 2 hh) @ 58 # map of_char (pad 2 mm)
     @ (if ss \<noteq> 0 \<or> us \<noteq> 0 then 58 # map of_char (pad 2 ss) else [])
     @ (if us \<noteq> 0 then 46 # map of_char (pad 6 us) else [])"
  have fo: "map of_char (format_offset (Some off)) = (if off < 0 then 45 else 43) # ob"
    by (simp add: format_offset_def Let_def a_def hh_def mm_def ss_def us_def ob_def
        del: pad.simps)
  have p: "parse_hh_mm_ss_ff ob (int (length ob)) = Some ((hh, mm, ss, us), False)"
  proof (cases "us = 0")
    case True
    show ?thesis
    proof (cases "ss = 0")
      case True
      with \<open>us = 0\<close> have ob: "ob = map of_char (pad 2 hh) @ 58 # map of_char (pad 2 mm) @ []"
        by (simp add: ob_def)
      have l: "int (length ob) = 5" unfolding ob by (simp add: length_pad del: pad.simps)
      show ?thesis unfolding l unfolding ob using parse_hm [OF hh mm, of "[]"] True \<open>us = 0\<close>
        by (simp add: peek_def del: pad.simps)
    next
      case False
      with \<open>us = 0\<close> have ob: "ob = map of_char (pad 2 hh) @ 58 # map of_char (pad 2 mm)
          @ 58 # map of_char (pad 2 ss) @ []"
        by (simp add: ob_def)
      have l: "int (length ob) = 8" unfolding ob by (simp add: length_pad del: pad.simps)
      show ?thesis unfolding l unfolding ob using parse_hms [OF hh mm ss, of "[]"] \<open>us = 0\<close>
        by (simp add: peek_def del: pad.simps)
    qed
  next
    case False
    then have ob: "ob = map of_char (pad 2 hh) @ 58 # map of_char (pad 2 mm)
          @ 58 # map of_char (pad 2 ss) @ 46 # map of_char (pad 6 us) @ []"
      by (simp add: ob_def)
    have l: "int (length ob) = 15" unfolding ob by (simp add: length_pad del: pad.simps)
    show ?thesis unfolding l unfolding ob using parse_hms_fraction [OF hh mm ss us, of "[]"]
      by (simp add: peek_def is_digit_byte_def del: pad.simps)
  qed
  from p have p': "parse_hh_mm_ss_ff ob (int (length ob))
      = Some ((a div 3600000000, (a div 60000000) mod 60, (a div 1000000) mod 60,
               a mod 1000000), False)"
    unfolding hh_def mm_def ss_def us_def .
  show ?thesis by (rule exI [of _ ob]) (rule conjI [OF fo p'])
qed

lemma offset_recomposed:
  assumes "\<bar>off\<bar> < 86400000000"
  defines "a \<equiv> nat \<bar>off\<bar>"
  defines "sg \<equiv> (if off < 0 then - 1 else (1::int))"
  shows "tzinfo_from_isoformat_results
           (Some (sg * int (a div 3600000000 * 3600 + (a div 60000000) mod 60 * 60
                              + (a div 1000000) mod 60),
                  sg * int (a mod 1000000)))
         = Some (Some (if \<bar>off\<bar> < 1000000 then 0 else off))"
proof -
  have secs: "a div 3600000000 * 3600 + (a div 60000000) mod 60 * 60 + (a div 1000000) mod 60
      = a div 1000000"
  proof -
    define b where "b = a div 1000000"
    have b1: "a div 60000000 = b div 60" unfolding b_def by (simp add: div_mult2_eq)
    have b2: "a div 3600000000 = b div 60 div 60" unfolding b_def by (simp add: div_mult2_eq)
    define c where "c = b div 60"
    define d where "d = c div 60"
    have e1: "b = c * 60 + b mod 60" unfolding c_def by simp
    have e2: "c = d * 60 + c mod 60" unfolding d_def by simp
    have "d * 3600 + c mod 60 * 60 + b mod 60 = (d * 60 + c mod 60) * 60 + b mod 60"
      by (simp add: algebra_simps)
    also have "\<dots> = c * 60 + b mod 60" using e2 by simp
    also have "\<dots> = b" using e1 by simp
    finally have "b div 60 div 60 * 3600 + (b div 60) mod 60 * 60 + b mod 60 = b"
      unfolding d_def c_def .
    then show ?thesis unfolding b1 b2 b_def .
  qed
  have rec: "int (a div 1000000) * 1000000 + int (a mod 1000000) = \<bar>off\<bar>"
  proof -
    have ia: "int a = \<bar>off\<bar>" by (simp add: a_def)
    have "int (a div 1000000 * 1000000 + a mod 1000000) = int a" by simp
    then have "int (a div 1000000) * 1000000 + int (a mod 1000000) = int a"
      by (simp only: of_nat_add of_nat_mult of_nat_numeral)
    then show ?thesis by (simp only: ia)
  qed
  show ?thesis
  proof (cases "\<bar>off\<bar> < 1000000")
    case True
    then have "a div 1000000 = 0" by (simp add: a_def)
    with True show ?thesis
      unfolding secs by (simp add: tzinfo_from_isoformat_results_def)
  next
    case False
    then have nz: "a div 1000000 \<noteq> 0" by (simp add: a_def div_eq_0_iff)
    have v: "sg * int (a div 1000000) * 1000000 + sg * int (a mod 1000000) = off"
    proof -
      have "sg * int (a div 1000000) * 1000000 + sg * int (a mod 1000000)
          = sg * (int (a div 1000000) * 1000000 + int (a mod 1000000))"
        by (simp add: algebra_simps)
      also have "\<dots> = sg * \<bar>off\<bar>" by (simp only: rec)
      also have "\<dots> = off" by (simp add: sg_def)
      finally show ?thesis .
    qed
    have sgnz: "sg \<noteq> 0" by (simp add: sg_def)
    show ?thesis
      unfolding secs using False nz sgnz assms(1)
      by (simp add: tzinfo_from_isoformat_results_def v valid_offset_def)
  qed
qed


subsection \<open>The time that isoformat writes\<close>

lemma pad_bytes_not_sign:
  "(b::nat) \<in> set (map of_char (pad k n)) \<Longrightarrow> b \<noteq> 90 \<and> b \<noteq> 43 \<and> b \<noteq> 45"
  using pad_bytes_digits [of k n] by (auto simp: list_all_iff is_digit_byte_def)

lemma time_fields:
  assumes "h < 100" "mi < 100" "s < 100" "us < 1000000" "\<not> is_digit_byte (peek r)"
  defines "pre \<equiv> map of_char (pad 2 h) @ 58 # map of_char (pad 2 mi) @ 58 # map of_char (pad 2 s)
     @ (if us \<noteq> 0 then 46 # map of_char (pad 6 us) else [])"
  shows "parse_hh_mm_ss_ff (pre @ r) (int (length pre)) = Some ((h, mi, s, us), peek r \<noteq> 0)"
    and "\<forall>b \<in> set pre. b \<noteq> 90 \<and> b \<noteq> 43 \<and> b \<noteq> 45"
    and "pre \<noteq> []"
proof -
  show "parse_hh_mm_ss_ff (pre @ r) (int (length pre)) = Some ((h, mi, s, us), peek r \<noteq> 0)"
  proof (cases "us = 0")
    case True
    then have pre: "pre = map of_char (pad 2 h) @ 58 # map of_char (pad 2 mi) @ 58
        # map of_char (pad 2 s)"
      by (simp add: pre_def)
    have l: "int (length pre) = 8" unfolding pre by (simp add: length_pad del: pad.simps)
    show ?thesis unfolding l unfolding pre using parse_hms [OF assms(1-3), of r] True
      by (simp del: pad.simps)
  next
    case False
    then have pre: "pre = map of_char (pad 2 h) @ 58 # map of_char (pad 2 mi) @ 58
        # map of_char (pad 2 s) @ 46 # map of_char (pad 6 us)"
      by (simp add: pre_def)
    have l: "int (length pre) = 15" unfolding pre by (simp add: length_pad del: pad.simps)
    show ?thesis unfolding l unfolding pre using parse_hms_fraction [OF assms(1-5)]
      by (simp del: pad.simps)
  qed
  show "\<forall>b \<in> set pre. b \<noteq> 90 \<and> b \<noteq> 43 \<and> b \<noteq> 45"
    unfolding pre_def using pad_bytes_not_sign by (auto simp del: pad.simps)
  show "pre \<noteq> []" by (simp add: pre_def)
qed

lemma parse_isoformat_time_naive:
  assumes "parse_hh_mm_ss_ff pre (int (length pre)) = Some (t, False)"
    and "\<forall>b \<in> set pre. b \<noteq> 90 \<and> b \<noteq> 43 \<and> b \<noteq> 45" and "pre \<noteq> []"
  shows "parse_isoformat_time pre = Some (t, None)"
proof -
  have tw: "takeWhile (\<lambda>b. b \<noteq> 90 \<and> b \<noteq> 43 \<and> b \<noteq> 45) pre = pre"
    using assms(2) by (simp add: takeWhile_eq_all_conv)
  show ?thesis
    using assms(1,3) by (simp add: parse_isoformat_time_def tw Let_def)
qed

lemma parse_isoformat_time_aware:
  assumes "parse_hh_mm_ss_ff (pre @ sg # ob) (int (length pre)) = Some (t, rv)"
    and "\<forall>b \<in> set pre. b \<noteq> 90 \<and> b \<noteq> 43 \<and> b \<noteq> 45"
    and "sg = 43 \<or> sg = 45"
    and "parse_hh_mm_ss_ff ob (int (length ob)) = Some ((th, tm, ts, tus), False)"
  shows "parse_isoformat_time (pre @ sg # ob)
         = Some (t, Some ((if sg = 45 then - 1 else 1) * int (th * 3600 + tm * 60 + ts),
                          (if sg = 45 then - 1 else 1) * int tus))"
proof -
  have tw: "takeWhile (\<lambda>b. b \<noteq> 90 \<and> b \<noteq> 43 \<and> b \<noteq> 45) (pre @ sg # ob) = pre"
    using assms(2,3) by (auto simp: takeWhile_append2)
  have at: "byte_at (pre @ sg # ob) (length pre) = sg"
    by (simp add: byte_at_def peek_def)
  have l: "int (length (pre @ sg # ob)) - int (Suc (length pre)) = int (length ob)"
    by simp
  have ne: "length pre \<noteq> length (pre @ sg # ob)" by simp
  have sg90: "sg \<noteq> 90" using assms(3) by auto
  show ?thesis
    unfolding parse_isoformat_time_def tw Let_def
    using assms(1,4) ne sg90
    by (simp only: at l drop_Suc append_eq_append_conv drop_append) (simp add: Let_def)
qed


subsection \<open>Reading back what isoformat writes\<close>

lemma format_offset_ascii: "list_all (\<lambda>c. (of_char c :: nat) < 128) (format_offset tz)"
  using pad_ascii [of 2] pad_ascii [of 6]
  by (cases tz) (simp_all add: format_offset_def Let_def del: pad.simps)

lemma isoformat_ascii: "list_all (\<lambda>c. (of_char c :: nat) < 128) (isoformat dt)"
  using pad_ascii [of 2] pad_ascii [of 4] pad_ascii [of 6] format_offset_ascii
  by (simp add: isoformat_def isoformat_sep_def del: pad.simps)

lemma find_separator_dashed:
  assumes "length a = 4" "is_digit_byte m1" "2 \<le> length r"
  shows "find_isoformat_datetime_separator (a @ 45 # m1 # r) = Some 10"
proof -
  have 4: "byte_at (a @ 45 # m1 # r) 4 = 45" using assms(1) by (simp add: byte_at_def peek_def)
  have 5: "byte_at (a @ 45 # m1 # r) 5 = m1"
  proof -
    have "drop 5 (a @ 45 # m1 # r) = m1 # r" using assms(1) by simp
    then show ?thesis by (simp add: byte_at_def peek_def)
  qed
  have l: "length (a @ 45 # m1 # r) \<noteq> 7" using assms(1,3) by simp
  have m: "m1 \<noteq> 87" using assms(2) by (simp add: is_digit_byte_def)
  show ?thesis
    unfolding find_isoformat_datetime_separator_def Let_def 4 5 using l m by simp
qed

lemma parse_isoformat_date_dashed:
  assumes "y < 10000" "mo < 100" "d < 100"
  shows "parse_isoformat_date
           (map of_char (pad 4 y) @ 45 # map of_char (pad 2 mo) @ 45 # map of_char (pad 2 d) @ r)
           (Some 10)
         = Some (int y, mo, d)"
proof -
  have pk: "peek (map of_char (pad 2 mo) @ 45 # map of_char (pad 2 d) @ r) \<noteq> 87"
    using peek_pad2 [of mo "45 # map of_char (pad 2 d) @ r"] by (auto simp: is_digit_byte_def)
  show ?thesis
    using assms pk
    by (simp add: parse_isoformat_date_def parse_digits_pad4 parse_digits_pad2 peek_def Let_def
        del: pad.simps)
qed

lemma fromisoformat_isoformat:
  assumes "valid_datetime dt"
  shows "fromisoformat (isoformat dt)
         = Some (dt\<lparr>tzoffset := map_option (\<lambda>off. if \<bar>off\<bar> < 1000000 then 0 else off)
                                   (tzoffset dt)\<rparr>)"
proof -
  have v: "valid_fields (year dt) (month dt) (day dt) (hour dt) (minute dt) (second dt)
        (microsecond dt)" and vo: "valid_offset (tzoffset dt)"
    using assms by (simp_all add: valid_datetime_def)
  have b: "year dt < 10000" "month dt < 100" "day dt < 100" "hour dt < 100" "minute dt < 100"
    "second dt < 100" "microsecond dt < 1000000" "1 \<le> year dt"
    using v by (auto simp: valid_fields_def days_in_month_def split: if_splits)
  define pre :: "nat list" where "pre = map of_char (pad 2 (hour dt)) @ 58
     # map of_char (pad 2 (minute dt)) @ 58 # map of_char (pad 2 (second dt))
     @ (if microsecond dt \<noteq> 0 then 46 # map of_char (pad 6 (microsecond dt)) else [])"
  define offb :: "nat list" where "offb = map of_char (format_offset (tzoffset dt))"
  define date :: "nat list" where "date = map of_char (pad 4 (year dt)) @ 45
     # map of_char (pad 2 (month dt)) @ 45 # map of_char (pad 2 (day dt))"
  have bytes: "utf8 (isoformat dt) = date @ 84 # pre @ offb"
    unfolding utf8_ascii [OF isoformat_ascii]
    by (simp add: isoformat_def isoformat_sep_def date_def pre_def offb_def del: pad.simps)
  have ld: "length date = 10" by (simp add: date_def length_pad del: pad.simps)
  have li: "\<not> length (isoformat dt) < 7"
    by (simp add: isoformat_def isoformat_sep_def length_pad del: pad.simps)
  have sep: "find_isoformat_datetime_separator (date @ 84 # pre @ offb) = Some 10"
  proof -
    obtain m1 m2 where m: "map of_char (pad 2 (month dt)) = [m1, m2]" "is_digit_byte m1"
      using pad_bytes_digits [of 2 "month dt"] length_pad [of 2 "month dt"]
      by (cases "pad 2 (month dt)"; cases "tl (pad 2 (month dt))") (auto simp del: pad.simps)
    have "date @ 84 # pre @ offb
        = map of_char (pad 4 (year dt)) @ 45 # m1
            # (m2 # 45 # map of_char (pad 2 (day dt)) @ 84 # pre @ offb)"
      by (simp add: date_def m del: pad.simps)
    then show ?thesis
      using find_separator_dashed [of "map of_char (pad 4 (year dt))" m1
          "m2 # 45 # map of_char (pad 2 (day dt)) @ 84 # pre @ offb"] m(2)
      by (simp add: length_pad del: pad.simps)
  qed
  have pd: "parse_isoformat_date (date @ 84 # pre @ offb) (Some 10)
      = Some (int (year dt), month dt, day dt)"
    using parse_isoformat_date_dashed [OF b(1-3), of "84 # pre @ offb"]
    by (simp add: date_def del: pad.simps)
  have sk: "skip_separator_char (drop 10 (date @ 84 # pre @ offb)) = pre @ offb"
    using ld by (simp add: skip_separator_char_def peek_def)
  have gt: "length (date @ 84 # pre @ offb) > 10" using ld by simp
  have tm: "(case tzinfo_from_isoformat_results
                    (snd (the (parse_isoformat_time (pre @ offb)))) of
               None \<Rightarrow> None | Some tzinfo \<Rightarrow> Some (fst (the (parse_isoformat_time (pre @ offb))), tzinfo))
      = Some ((hour dt, minute dt, second dt, microsecond dt),
              map_option (\<lambda>off. if \<bar>off\<bar> < 1000000 then 0 else off) (tzoffset dt))
      \<and> parse_isoformat_time (pre @ offb) \<noteq> None"
  proof (cases "tzoffset dt")
    case None
    then have ob: "offb = []" by (simp add: offb_def format_offset_def)
    have "parse_isoformat_time pre
        = Some ((hour dt, minute dt, second dt, microsecond dt), None)"
      using time_fields [OF b(4-7), of "[]"]
      by (intro parse_isoformat_time_naive)
        (simp_all add: pre_def peek_def is_digit_byte_def del: pad.simps)
    with None ob show ?thesis by (simp add: tzinfo_from_isoformat_results_def)
  next
    case (Some off)
    then have ao: "\<bar>off\<bar> < 86400000000" using vo by (simp add: valid_offset_def)
    from format_offset_bytes [OF ao] obtain ob where
      ob0: "map of_char (format_offset (Some off)) = (if off < 0 then 45 else 43) # ob \<and>
        parse_hh_mm_ss_ff ob (int (length ob))
           = Some ((nat \<bar>off\<bar> div 3600000000, (nat \<bar>off\<bar> div 60000000) mod 60,
                    (nat \<bar>off\<bar> div 1000000) mod 60, nat \<bar>off\<bar> mod 1000000), False)" ..
    note ob = conjunct1 [OF ob0] conjunct2 [OF ob0]
    define sg :: nat where "sg = (if off < 0 then 45 else 43)"
    have offb: "offb = sg # ob" using ob(1) Some by (simp add: offb_def sg_def)
    have sg: "sg = 43 \<or> sg = 45" by (simp add: sg_def)
    have nd: "\<not> is_digit_byte (peek (sg # ob))" using sg by (auto simp: peek_def is_digit_byte_def)
    have t: "parse_hh_mm_ss_ff (pre @ sg # ob) (int (length pre))
        = Some ((hour dt, minute dt, second dt, microsecond dt), peek (sg # ob) \<noteq> 0)"
      and np: "\<forall>b \<in> set pre. b \<noteq> 90 \<and> b \<noteq> 43 \<and> b \<noteq> 45"
      using time_fields [OF b(4-7) nd] by (simp_all add: pre_def del: pad.simps)
    have sgi: "(if sg = 45 then - 1 else (1::int)) = (if off < 0 then - 1 else 1)"
      by (simp add: sg_def)
    have pt: "parse_isoformat_time (pre @ sg # ob)
        = Some ((hour dt, minute dt, second dt, microsecond dt),
             Some ((if off < 0 then - 1 else 1)
                     * int (nat \<bar>off\<bar> div 3600000000 * 3600
                            + (nat \<bar>off\<bar> div 60000000) mod 60 * 60
                            + (nat \<bar>off\<bar> div 1000000) mod 60),
                   (if off < 0 then - 1 else 1) * int (nat \<bar>off\<bar> mod 1000000)))"
      using parse_isoformat_time_aware [OF t np sg ob(2)] unfolding sgi .
    show ?thesis
      unfolding offb pt using offset_recomposed [OF ao] Some by simp
  qed
  obtain t tz where ptz: "parse_isoformat_time (pre @ offb) = Some (t, tz)"
    using tm by (cases "parse_isoformat_time (pre @ offb)") auto
  from tm ptz have res: "t = (hour dt, minute dt, second dt, microsecond dt)"
    "tzinfo_from_isoformat_results tz
       = Some (map_option (\<lambda>off. if \<bar>off\<bar> < 1000000 then 0 else off) (tzoffset dt))"
    by (auto split: option.splits)
  show ?thesis
    unfolding fromisoformat_def bytes Let_def sep pd
    using li gt sk ptz res v b(8)
    by (simp del: pad.simps)
qed

lemma get_after_update:
  assumes "valid_datetime T"
  shows "get_last_timestamp (update_timestamp io_ok now sm dcid T raw_value etag) dcid
         = Some (T\<lparr>tzoffset := map_option (\<lambda>off. if \<bar>off\<bar> < 1000000 then 0 else off)
                                  (tzoffset T)\<rparr>)"
proof -
  have ne: "isoformat T \<noteq> []" by (simp add: isoformat_def isoformat_sep_def)
  show ?thesis
    using ne
    by (simp add: get_last_timestamp_def update_timestamp_def save_state_def Let_def
        replace_Z_id [OF Z_notin_isoformat] fromisoformat_isoformat [OF assms])
qed

text \<open>
  The round trip through the state: a datetime that is naive, or whose offset is zero or
  at least one second long, is read back as it was stored.
\<close>

lemma get_after_update_whole_seconds:
  assumes "valid_datetime T"
    and "tzoffset T = None \<or> tzoffset T = Some 0
         \<or> (\<exists>off. tzoffset T = Some off \<and> 1000000 \<le> \<bar>off\<bar>)"
  shows "get_last_timestamp (update_timestamp io_ok now sm dcid T raw_value etag) dcid = Some T"
proof -
  have "map_option (\<lambda>off. if \<bar>off\<bar> < 1000000 then 0 else off) (tzoffset T) = tzoffset T"
    using assms(2) by auto
  then show ?thesis unfolding get_after_update [OF assms(1)] by simp
qed

subsection \<open>StateManager\<close>

lemma get_after_clear: "get_last_timestamp (clear_state io_ok sm dcid) dcid = None"
  by (auto simp: get_last_timestamp_def clear_state_def save_state_def domIff)

lemma valid_T0: "valid_datetime T0"
  by (simp add: T0_def valid_datetime_def valid_fields_def valid_offset_def days_in_month_def)

lemma pad2: "pad 2 n = [digit_char (n div 10), digit_char n]"
proof -
  have two: "(2::nat) = Suc (Suc 0)" by simp
  show ?thesis unfolding two by simp
qed

lemma pad4: "pad 4 n = [digit_char (n div 1000), digit_char (n div 100), digit_char (n div 10), digit_char n]"
proof -
  have four: "(4::nat) = Suc (Suc (Suc (Suc 0)))" by simp
  have "pad (Suc (Suc (Suc (Suc 0)))) n =
     [digit_char (n div 1000), digit_char (n div 100), digit_char (n div 10), digit_char n]"
    by (simp add: div_mult2_eq [symmetric])
  then show ?thesis by (simp only: four)
qed


lemma iso_T0: "isoformat T0 = ''2025-01-15T10:30:00+00:00''"
  by (simp add: T0_def isoformat_def isoformat_sep_def format_offset_def pad2 pad4 digit_char_def)

lemma fromiso_T0: "fromisoformat ''2025-01-15T10:30:00+00:00'' = Some T0"
  using fromisoformat_isoformat [OF valid_T0] unfolding iso_T0 by (simp add: T0_def)

subsection \<open>Verifier\<close>

lemma unknown_records:
  "is_unknown client_unavailable" "is_unknown (call_failed msg)"
  "is_unknown (fallback_response text)"
  by (simp_all add: is_unknown_def client_unavailable_def call_failed_def fallback_response_def)

lemma groq_parse_response_malformed:
  assumes "\<not> reads_verdict env reply"
  shows "groq_parse_response env reply = Inr (fallback_response reply)
         \<or> (\<exists>e. groq_parse_response env reply = Inl e)"
  using assms
  by (auto simp: reads_verdict_def groq_parse_response_def
      split: option.splits loads_result.splits json.splits sum.splits)

lemma groq_parse_response_verdict:
  assumes "reads_verdict env reply"
  shows "\<exists>r. groq_parse_response env reply = Inr r \<and> v_error r = None"
  using assms
  by (auto simp: reads_verdict_def groq_parse_response_def
      split: option.splits loads_result.splits json.splits sum.splits)

lemma verify_timestamp_total:
  "\<exists>r. verify_timestamp env client e p s u = Inr r"
  by (auto simp: verify_timestamp_def split: chat_outcome.splits option.splits sum.splits)

lemma verify_timestamp_unknown:
  assumes "no_verdict env client e p s u"
  shows "\<exists>r. verify_timestamp env client e p s u = Inr r \<and> is_unknown r"
proof (cases client)
  case False
  then show ?thesis by (simp add: verify_timestamp_def unknown_records)
next
  case True
  show ?thesis
  proof (cases "chat env e (truncate_content p) s u")
    case (ChatRaised msg)
    with True show ?thesis by (simp add: verify_timestamp_def unknown_records)
  next
    case (ChatContent c)
    show ?thesis
    proof (cases c)
      case None
      with True ChatContent show ?thesis by (simp add: verify_timestamp_def unknown_records)
    next
      case (Some reply)
      with assms True ChatContent have "\<not> reads_verdict env reply"
        by (simp add: no_verdict_def)
      from groq_parse_response_malformed [OF this] True ChatContent Some show ?thesis
        by (auto simp: verify_timestamp_def unknown_records)
    qed
  qed
qed

lemma verify_timestamp_verdict:
  assumes "\<not> no_verdict env client e p s u"
  shows "\<exists>r. verify_timestamp env client e p s u = Inr r \<and> \<not> is_unknown r"
proof -
  from assms have c: "client" by (auto simp: no_verdict_def split: if_splits)
  from assms c obtain reply where
    r: "chat env e (truncate_content p) s u = ChatContent (Some reply)" "reads_verdict env reply"
    by (auto simp: no_verdict_def split: chat_outcome.splits option.splits)
  from groq_parse_response_verdict [OF r(2)] obtain res where
    "groq_parse_response env reply = Inr res" "v_error res = None" by blast
  with c r(1) show ?thesis by (simp add: verify_timestamp_def is_unknown_def)
qed

lemma verify_result_total:
  "\<exists>res. verify_result w ver kind attrs n u cur result = Inr res \<and>
     r_changed res = r_changed result \<and>
     r_previous_timestamp res = r_previous_timestamp result \<and>
     r_current_timestamp res = r_current_timestamp result"
proof -
  obtain vr where "verify_timestamp (w_venv w) True
      (str_or (h_raw_timestamp attrs) (dt_str (the cur)))
      (str_or (if has_page_content kind then h_page_content attrs else Some [])
         (str_or (h_raw_timestamp attrs) (dt_str (the cur)))) n u = Inr vr"
    using verify_timestamp_total by blast
  then show ?thesis
    by (auto simp: verify_result_def merge_verification_def Let_def
        split: option.splits bool.splits)
qed

lemma get_handler_SomeD:
  assumes "get_handler sources dcid = Some (kind, config)"
  shows "\<exists>sc. get_source sources dcid = Some sc \<and> sc \<noteq> []"
  using assms by (auto simp: get_handler_def split: option.splits if_splits)

lemma check_main_path:
  assumes gh: "get_handler sources dcid = Some (kind, config)"
    and fe: "w_fetch w kind config = FetchReturned cur attrs"
    and cmp: "compare_with_stored cur (get_last_timestamp sm dcid) = Inr ch"
  shows "\<exists>res. check_for_updates w sources ver sm dcid =
           (Inr res,
            (case cur of None \<Rightarrow> sm
             | Some c \<Rightarrow> update_timestamp (w_io_ok w) (w_now w) sm dcid c
                          (h_raw_timestamp attrs) (get_etag kind attrs)))
         \<and> r_changed res = ch \<and> r_current_timestamp res = cur
         \<and> r_previous_timestamp res = get_last_timestamp sm dcid"
proof -
  from get_handler_SomeD [OF gh] obtain sc where sc: "get_source sources dcid = Some sc" "sc \<noteq> []"
    by blast
  define base where "base = (CheckResult_default dcid)
      \<lparr>r_import_name := Some (get_str_or sc ''import_name'' dcid),
       r_data_url := Some (get_str_or sc ''data_url'' []),
       r_script_url := Some (get_str_or sc ''script_url'' []),
       r_method := Some (get_str_or sc ''method'' [])\<rparr>"
  define result where "result = base\<lparr>r_changed := ch, r_current_timestamp := cur,
       r_previous_timestamp := get_last_timestamp sm dcid,
       r_raw_timestamp := h_raw_timestamp attrs\<rparr>"
  obtain res where res: "verify_result w ver kind attrs (get_str_or sc ''import_name'' dcid)
       (get_str_or sc ''data_url'' []) cur result = Inr res"
     "r_changed res = r_changed result" "r_previous_timestamp res = r_previous_timestamp result"
     "r_current_timestamp res = r_current_timestamp result"
    using verify_result_total by blast
  have "check_for_updates w sources ver sm dcid =
           (Inr res,
            (case cur of None \<Rightarrow> sm
             | Some c \<Rightarrow> update_timestamp (w_io_ok w) (w_now w) sm dcid c
                          (h_raw_timestamp attrs) (get_etag kind attrs)))"
    using sc gh fe cmp res(1)
    by (simp add: check_for_updates_def compare_and_store_def Let_def base_def result_def)
  with res show ?thesis by (simp add: result_def)
qed

subsection \<open>Orchestrator on the example inputs\<close>

lemma get_last_sm_T0: "get_last_timestamp sm_T0 ''src'' = Some T0"
  by (simp add: get_last_timestamp_def sm_T0_def fromiso_T0)

lemma get_handler_http:
  "get_handler sources_http ''src'' =
     Some (HTTPHandler, [(''dcid'', CStr ''src''), (''method'', CStr ''http_head''),
                  (''data_url'', CStr ''https://example.com/data.csv'')])"
  by (simp add: get_handler_def get_source_def sources_http_def get_str_def HANDLER_MAP_def)

lemma get_handler_ftp: "get_handler sources_ftp ''src'' = None"
  by (simp add: get_handler_def get_source_def sources_ftp_def get_str_def HANDLER_MAP_def)

lemma get_source_http:
  "get_source sources_http ''src'' =
     Some [(''method'', CStr ''http_head''), (''data_url'', CStr ''https://example.com/data.csv'')]"
  by (simp add: get_source_def sources_http_def)

lemma get_source_ftp:
  "get_source sources_ftp ''src'' =
     Some [(''method'', CStr ''ftp''), (''data_url'', CStr ''ftp://example.com/data.csv'')]"
  by (simp add: get_source_def sources_ftp_def)

lemma naive_vs_aware: "compare_with_stored (Some T1) (Some T0) = Inl TypeError"
  by (simp add: compare_with_stored_def dt_gt_def dt_cmp_def aware_def T0_def T1_def)

lemma check_naive_after_aware:
  "check_for_updates (world_returning (Some T1)) sources_http None sm_T0 ''src''
     = (Inl TypeError, sm_T0)"
  by (simp add: check_for_updates_def compare_and_store_def get_handler_http Let_def
      get_last_sm_T0 naive_vs_aware world_returning_def get_source_http)

lemma check_unknown_method:
  "map_sum id r_previous_timestamp
     (fst (check_for_updates (world_returning (Some T2)) sources_ftp None sm_T0 ''src''))
     = Inr None"
  by (simp add: check_for_updates_def get_handler_ftp Let_def CheckResult_default_def
      get_source_ftp)

lemma aware_later: "compare_with_stored (Some T2) (Some T0) = Inr True"
  by (simp add: compare_with_stored_def dt_gt_def dt_cmp_def aware_def instant_def
      wall_micros_def ymd2ord_def days_before_year_def days_before_month_def T0_def T2_def)

lemma check_independent_of_verifier:
  "snd (check_for_updates w sources ver sm dcid) = snd (check_for_updates w sources None sm dcid)
   \<and> map_sum id r_changed (fst (check_for_updates w sources ver sm dcid))
       = map_sum id r_changed (fst (check_for_updates w sources None sm dcid))"
proof -
  have vr: "\<And>kind attrs n u cur result.
      map_sum id r_changed (verify_result w ver kind attrs n u cur result)
        = map_sum id r_changed (verify_result w None kind attrs n u cur result)"
  proof -
    fix kind attrs n u cur result
    obtain res where "verify_result w ver kind attrs n u cur result = Inr res"
      "r_changed res = r_changed result"
      using verify_result_total by blast
    then show "map_sum id r_changed (verify_result w ver kind attrs n u cur result)
        = map_sum id r_changed (verify_result w None kind attrs n u cur result)"
      by (simp add: verify_result_def)
  qed
  show ?thesis
    by (auto simp: check_for_updates_def compare_and_store_def Let_def vr
        split: option.splits fetch_result.splits sum.splits)
qed

lemma malformed_example:
  "no_verdict env_plain True a b c d"
  by (simp add: no_verdict_def env_plain_def reads_verdict_def json_match_def)

lemma round_double_0: "round_double 0 = Num 0"
  by (simp add: round_double_def)

lemma empty_object_example:
  "verify_timestamp env_empty_object True a b c d = Inr negative_verdict"
  by (simp add: verify_timestamp_def env_empty_object_def groq_parse_response_def json_match_def
      jget_def py_float_def round_double_0 negative_verdict_def)

lemma empty_object_verdict: "\<not> no_verdict env_empty_object True a b c d"
  by (simp add: no_verdict_def env_empty_object_def reads_verdict_def json_match_def
      jget_def py_float_def round_double_0)

subsection \<open>DateParser on the example inputs\<close>

lemma nd1: "nat_of_digits ''1705315800'' = 1705315800"
  by (simp add: nat_of_digits_def digit_val_def)

lemma nd2: "nat_of_digits ''1705315800000'' = 1705315800000"
  by (simp add: nat_of_digits_def digit_val_def)

lemma rd1: "round_double 1705315800 = Num 1705315800"
  by code_simp

lemma rd2: "round_double 1705315800000 = Num 1705315800000"
  by code_simp

lemma fd1: "float_div (Num 1705315800000) 1000 = Num 1705315800"
  by code_simp

lemma fl1: "float_of_numeric ''1705315800'' = Some (Num 1705315800)"
  by (simp add: float_of_numeric_def is_digit_def nd1 rd1)

lemma fl2: "float_of_numeric ''1705315800000'' = Some (Num 1705315800000)"
  by (simp add: float_of_numeric_def is_digit_def nd2 rd2)

lemma ft1: "fromtimestamp 0 (PFloat (Num 1705315800)) = Inr dt_2024"
  unfolding dt_2024_def by code_simp

lemma ft2: "fromtimestamp 0 (PInt 1705315800) = Inr dt_2024"
  unfolding dt_2024_def by code_simp

lemma unix_seconds: "try_unix_timestamp 0 ''1705315800'' = Some dt_2024"
proof -
  have f: "filter (\<lambda>c. is_digit c \<or> c = CHR ''.'') ''1705315800'' = ''1705315800''"
    by (simp add: is_digit_def)
  show ?thesis
    unfolding try_unix_timestamp_def f Let_def by (simp add: fl1 ft1 float_gt_def)
qed

lemma unix_millis: "try_unix_timestamp 0 ''1705315800000'' = Some dt_2024"
proof -
  have f: "filter (\<lambda>c. is_digit c \<or> c = CHR ''.'') ''1705315800000'' = ''1705315800000''"
    by (simp add: is_digit_def)
  show ?thesis
    unfolding try_unix_timestamp_def f Let_def by (simp add: fl2 fd1 ft1 float_gt_def)
qed

lemma regex_seconds:
  "regex_match [''utc'', ''gmt''] (compile_format ''%Y-%m-%dT%H:%M:%S.%fZ'') ''1705315800'' tm_default
     = None"
  "regex_match [''utc'', ''gmt''] (compile_format ''%Y-%m-%dT%H:%M:%SZ'') ''1705315800'' tm_default
     = None"
  "regex_match [''utc'', ''gmt''] (compile_format ''%Y-%m-%dT%H:%M:%S.%f'') ''1705315800'' tm_default
     = None"
  "regex_match [''utc'', ''gmt''] (compile_format ''%Y-%m-%dT%H:%M:%S'') ''1705315800'' tm_default
     = None"
  "regex_match [''utc'', ''gmt''] (compile_format ''%Y-%m-%d %H:%M:%S'') ''1705315800'' tm_default
     = None"
  "regex_match [''utc'', ''gmt''] (compile_format ''%Y-%m-%d'') ''1705315800'' tm_default
     = None"
  "regex_match [''utc'', ''gmt''] (compile_format ''%m/%d/%Y %H:%M:%S'') ''1705315800'' tm_default
     = None"
  "regex_match [''utc'', ''gmt''] (compile_format ''%m/%d/%Y'') ''1705315800'' tm_default
     = None"
  "regex_match [''utc'', ''gmt''] (compile_format ''%m-%d-%Y'') ''1705315800'' tm_default
     = None"
  "regex_match [''utc'', ''gmt''] (compile_format ''%d/%m/%Y %H:%M:%S'') ''1705315800'' tm_default
     = None"
  "regex_match [''utc'', ''gmt''] (compile_format ''%d/%m/%Y'') ''1705315800'' tm_default
     = None"
  "regex_match [''utc'', ''gmt''] (compile_format ''%d-%m-%Y'') ''1705315800'' tm_default
     = None"
  "regex_match [''utc'', ''gmt''] (compile_format ''%B %d, %Y'') ''1705315800'' tm_default
     = None"
  "regex_match [''utc'', ''gmt''] (compile_format ''%b %d, %Y'') ''1705315800'' tm_default
     = None"
  "regex_match [''utc'', ''gmt''] (compile_format ''%B %d %Y'') ''1705315800'' tm_default
     = None"
  "regex_match [''utc'', ''gmt''] (compile_format ''%b %d %Y'') ''1705315800'' tm_default
     = None"
  "regex_match [''utc'', ''gmt''] (compile_format ''%d %B %Y'') ''1705315800'' tm_default
     = None"
  "regex_match [''utc'', ''gmt''] (compile_format ''%d %b %Y'') ''1705315800'' tm_default
     = None"
  "regex_match [''utc'', ''gmt''] (compile_format ''%a, %d %b %Y %H:%M:%S GMT'') ''1705315800'' tm_default
     = None"
  "regex_match [''utc'', ''gmt''] (compile_format ''%a, %d %b %Y %H:%M:%S %Z'') ''1705315800'' tm_default
     = None"
  "regex_match [''utc'', ''gmt''] (compile_format ''%Y%m%d'') ''1705315800'' tm_default
     = Some (\<lparr>tm_year = 1705, tm_month = 3, tm_day = 15, tm_hour = 0, tm_minute = 0, tm_second = 0, tm_fraction = 0\<rparr>, ''800'')"
  "regex_match [''utc'', ''gmt''] (compile_format ''%Y%m%d%H%M%S'') ''1705315800'' tm_default
     = Some (\<lparr>tm_year = 1705, tm_month = 3, tm_day = 15, tm_hour = 8, tm_minute = 0, tm_second = 0, tm_fraction = 0\<rparr>, [])"
  by code_simp+

lemma regex_millis:
  "regex_match [''utc'', ''gmt''] (compile_format ''%Y-%m-%dT%H:%M:%S.%fZ'') ''1705315800000'' tm_default
     = None"
  "regex_match [''utc'', ''gmt''] (compile_format ''%Y-%m-%dT%H:%M:%SZ'') ''1705315800000'' tm_default
     = None"
  "regex_match [''utc'', ''gmt''] (compile_format ''%Y-%m-%dT%H:%M:%S.%f'') ''1705315800000'' tm_default
     = None"
  "regex_match [''utc'', ''gmt''] (compile_format ''%Y-%m-%dT%H:%M:%S'') ''1705315800000'' tm_default
     = None"
  "regex_match [''utc'', ''gmt''] (compile_format ''%Y-%m-%d %H:%M:%S'') ''1705315800000'' tm_default
     = None"
  "regex_match [''utc'', ''gmt''] (compile_format ''%Y-%m-%d'') ''1705315800000'' tm_default
     = None"
  "regex_match [''utc'', ''gmt''] (compile_format ''%m/%d/%Y %H:%M:%S'') ''1705315800000'' tm_default
     = None"
  "regex_match [''utc'', ''gmt''] (compile_format ''%m/%d/%Y'') ''1705315800000'' tm_default
     = None"
  "regex_match [''utc'', ''gmt''] (compile_format ''%m-%d-%Y'') ''1705315800000'' tm_default
     = None"
  "regex_match [''utc'', ''gmt''] (compile_format ''%d/%m/%Y %H:%M:%S'') ''1705315800000'' tm_default
     = None"
  "regex_match [''utc'', ''gmt''] (compile_format ''%d/%m/%Y'') ''1705315800000'' tm_default
     = None"
  "regex_match [''utc'', ''gmt''] (compile_format ''%d-%m-%Y'') ''1705315800000'' tm_default
     = None"
  "regex_match [''utc'', ''gmt''] (compile_format ''%B %d, %Y'') ''1705315800000'' tm_default
     = None"
  "regex_match [''utc'', ''gmt''] (compile_format ''%b %d, %Y'') ''1705315800000'' tm_default
     = None"
  "regex_match [''utc'', ''gmt''] (compile_format ''%B %d %Y'') ''1705315800000'' tm_default
     = None"
  "regex_match [''utc'', ''gmt''] (compile_format ''%b %d %Y'') ''1705315800000'' tm_default
     = None"
  "regex_match [''utc'', ''gmt''] (compile_format ''%d %B %Y'') ''1705315800000'' tm_default
     = None"
  "regex_match [''utc'', ''gmt''] (compile_format ''%d %b %Y'') ''1705315800000'' tm_default
     = None"
  "regex_match [''utc'', ''gmt''] (compile_format ''%a, %d %b %Y %H:%M:%S GMT'') ''1705315800000'' tm_default
     = None"
  "regex_match [''utc'', ''gmt''] (compile_format ''%a, %d %b %Y %H:%M:%S %Z'') ''1705315800000'' tm_default
     = None"
  "regex_match [''utc'', ''gmt''] (compile_format ''%Y%m%d'') ''1705315800000'' tm_default
     = Some (\<lparr>tm_year = 1705, tm_month = 3, tm_day = 15, tm_hour = 0, tm_minute = 0, tm_second = 0, tm_fraction = 0\<rparr>, ''800000'')"
  "regex_match [''utc'', ''gmt''] (compile_format ''%Y%m%d%H%M%S'') ''1705315800000'' tm_default
     = Some (\<lparr>tm_year = 1705, tm_month = 3, tm_day = 15, tm_hour = 8, tm_minute = 0, tm_second = 0, tm_fraction = 0\<rparr>, ''0'')"
  by code_simp+

lemma first_format_seconds:
  "first_format [''utc'', ''gmt''] ''1705315800'' DATE_FORMATS = Some dt_1705"
  by (simp add: DATE_FORMATS_def strptime_def regex_seconds valid_fields_def days_in_month_def
      is_leap_def dt_1705_def)

lemma first_format_millis:
  "first_format [''utc'', ''gmt''] ''1705315800000'' DATE_FORMATS = None"
  by (simp add: DATE_FORMATS_def strptime_def regex_millis)

lemma clean_seconds: "clean_date_string ''1705315800'' = ''1705315800''"
  by code_simp

lemma clean_millis: "clean_date_string ''1705315800000'' = ''1705315800000''"
  by code_simp

lemma parse_seconds: "parse env_no_dateutil ''1705315800'' = Inr (Some dt_1705)"
  by (simp add: parse_def parse_with_def env_no_dateutil_def clean_seconds first_format_seconds)

lemma parse_millis: "parse env_no_dateutil ''1705315800000'' = Inr (Some dt_2024)"
  by (simp add: parse_def parse_with_def env_no_dateutil_def clean_millis first_format_millis
      unix_millis)

subsection \<open>API handlers\<close>

lemma api_overflow:
  "fst (api_fetch_current_timestamp env_no_dateutil net_overflow 3 cfg_api) = Inl OverflowError"
proof -
  have ft: "fromtimestamp 0 (PFloat (Num 10000000000000000000)) = Inl OverflowError"
    by code_simp
  have dv: "num_div (PInt 10000000000000000000000) 1000 = Inr (Num 10000000000000000000)"
    by code_simp
  have gt: "num_gt (PInt 10000000000000000000000) (10 ^ 12)"
    by (simp add: num_gt_def)
  have pv: "parse_timestamp_value p 0 (JInt 10000000000000000000000) = Inl OverflowError" for p
    unfolding parse_timestamp_value_def number_of_def using gt by (simp add: dv ft)
  show ?thesis
    by (simp add: api_fetch_current_timestamp_def cfg_api_def get_str_def truthy_str_def numeral_3_eq_3
        net_overflow_def status_raises_def api_parse_response_def get_str_or_def
        parse_json_response_def get_strs_def jget_def env_no_dateutil_def pv)
qed

lemma api_get_only:
  "api_fetch_current_timestamp env_no_dateutil net_get_not_allowed 3 cfg_api
     = (Inr None, [''GET'', ''GET'', ''GET''])"
  by (simp add: api_fetch_current_timestamp_def cfg_api_def get_str_def truthy_str_def
      numeral_3_eq_3 net_get_not_allowed_def status_raises_def)

lemma main_api_falls_back:
  "main_api_fetch_current_timestamp env_no_dateutil net_get_not_allowed cfg_api
     = (Inr (Some dt_2024), [''GET'', ''HEAD'', ''POST''])"
proof -
  have up: "upper ''GET'' = ''GET''" by code_simp
  have gt: "\<not> num_gt (PInt 1705315800) (10 ^ 12)"
    by (simp add: num_gt_def)
  have pv: "parse_timestamp_value p 0 (JInt 1705315800) = Inr (Some dt_2024)" for p
    unfolding parse_timestamp_value_def number_of_def using gt by (simp add: ft2)
  show ?thesis
    by (simp add: main_api_fetch_current_timestamp_def cfg_api_def get_str_def truthy_str_def
        methods_to_try_def get_str_or_def up net_get_not_allowed_def status_raises_def
        parse_json_response_def get_strs_def jget_def env_no_dateutil_def pv)
qed

lemma api_attempts_get_only:
  "set (snd (api_attempts env nt cfg k attempt)) \<subseteq> {''GET''} \<and>
   length (snd (api_attempts env nt cfg k attempt)) \<le> k"
proof (induction k arbitrary: attempt)
  case 0
  show ?case by simp
next
  case (Suc k)
  from Suc.IH [of "Suc attempt"] show ?case
    by (cases "request nt ''GET'' attempt") (auto simp: Let_def)
qed

lemma main_api_methods_unsupported:
  "\<not> supported m \<Longrightarrow> main_api_methods env nt cfg (m # ms) = main_api_methods env nt cfg ms"
  by (simp add: supported_def)

lemma main_api_methods_skipped:
  "supported m \<Longrightarrow> skipped nt m \<Longrightarrow>
   main_api_methods env nt cfg (m # ms) = apsnd ((#) m) (main_api_methods env nt cfg ms)"
  by (cases "request nt m 0") (auto simp: supported_def skipped_def Let_def)

lemma main_api_methods_answered:
  "supported m \<Longrightarrow> \<not> skipped nt m \<Longrightarrow> snd (main_api_methods env nt cfg (m # ms)) = [m]"
  by (cases "request nt m 0") (auto simp: supported_def skipped_def Let_def)

lemma main_api_methods_requests:
  "snd (main_api_methods env nt cfg ms) =
     takeWhile (skipped nt) (filter supported ms)
     @ take 1 (dropWhile (skipped nt) (filter supported ms))"
proof (induction ms)
  case Nil
  show ?case by simp
next
  case (Cons m ms)
  show ?case
  proof (cases "supported m")
    case False
    with Cons show ?thesis by (simp add: main_api_methods_unsupported del: main_api_methods.simps)
  next
    case True
    show ?thesis
    proof (cases "skipped nt m")
      case True
      with \<open>supported m\<close> Cons show ?thesis
        by (simp add: main_api_methods_skipped del: main_api_methods.simps)
    next
      case False
      with \<open>supported m\<close> show ?thesis
        by (simp add: main_api_methods_answered del: main_api_methods.simps)
    qed
  qed
qed

lemma main_api_methods_exhausted:
  "list_all (skipped nt) (filter supported ms) \<Longrightarrow> fst (main_api_methods env nt cfg ms) = Inr None"
proof (induction ms)
  case Nil
  show ?case by simp
next
  case (Cons m ms)
  show ?case
  proof (cases "supported m")
    case False
    with Cons show ?thesis by (simp add: main_api_methods_unsupported del: main_api_methods.simps)
  next
    case True
    with Cons show ?thesis
      by (simp add: main_api_methods_skipped del: main_api_methods.simps)
  qed
qed

subsection \<open>Selenium handlers\<close>

lemma regex_1999:
  "regex_match [''utc'', ''gmt''] (compile_format ''%Y-%m-%dT%H:%M:%S.%fZ'') ''1999-12-31'' tm_default = None"
  "regex_match [''utc'', ''gmt''] (compile_format ''%Y-%m-%dT%H:%M:%SZ'') ''1999-12-31'' tm_default = None"
  "regex_match [''utc'', ''gmt''] (compile_format ''%Y-%m-%dT%H:%M:%S.%f'') ''1999-12-31'' tm_default = None"
  "regex_match [''utc'', ''gmt''] (compile_format ''%Y-%m-%dT%H:%M:%S'') ''1999-12-31'' tm_default = None"
  "regex_match [''utc'', ''gmt''] (compile_format ''%Y-%m-%d %H:%M:%S'') ''1999-12-31'' tm_default = None"
  "regex_match [''utc'', ''gmt''] (compile_format ''%Y-%m-%d'') ''1999-12-31'' tm_default
     = Some (\<lparr>tm_year = 1999, tm_month = 12, tm_day = 31, tm_hour = 0, tm_minute = 0,
               tm_second = 0, tm_fraction = 0\<rparr>, [])"
  by code_simp+


lemma clean_1999:
  "clean_date_string ''1999-12-31'' = ''1999-12-31''"
  "clean_date_string_main ''1999-12-31'' = ''1999-12-31''"
  "clean_date_string_main ''2024-01-15'' = ''2024-01-15''"
  by code_simp+


lemma parse_main_1999: "parse_main env_no_dateutil ''1999-12-31'' = Inr (Some dt_1999)"
  by (simp add: parse_main_def parse_with_def env_no_dateutil_def clean_1999 DATE_FORMATS_main_def
      strptime_def regex_1999 valid_fields_def days_in_month_def dt_1999_def)


lemma selectors_updated: "map strip (split_comma ''.updated'') = [''.updated'']"
  by code_simp

lemma strip_1999: "strip ''1999-12-31'' = ''1999-12-31''"
  by code_simp


lemma main_selenium_accepts_old_date:
  "main_selenium_fetch_current_timestamp env_no_dateutil T1 cfg_selenium (PageLoaded page_old)
     = Some dt_1999"
  by (simp add: main_selenium_fetch_current_timestamp_def cfg_selenium_def get_str_def
      truthy_str_def main_selector_stage_def get_str_or_def selectors_updated page_old_def
      strip_1999 parse_main_1999)












lemma clean_main_unix:
  "clean_date_string_main ''1705315800'' = ''1705315800''"
  "clean_date_string_main ''1705315800000'' = ''1705315800000''"
  by code_simp+

lemma parse_main_seconds: "parse_main env_no_dateutil ''1705315800'' = Inr (Some dt_2024)"
  by (simp add: parse_main_def parse_with_def env_no_dateutil_def clean_main_unix
      DATE_FORMATS_main_def strptime_def regex_seconds unix_seconds)

lemma parse_main_millis: "parse_main env_no_dateutil ''1705315800000'' = Inr (Some dt_2024)"
  by (simp add: parse_main_def parse_with_def env_no_dateutil_def clean_main_unix
      DATE_FORMATS_main_def strptime_def regex_millis unix_millis)

text \<open>
  The unix timestamp step in general: when \<open>dateutil\<close> is missing or raises \<open>ValueError\<close>
  or \<open>TypeError\<close> and no format accepts the cleaned text, \<open>parse\<close> returns what
  \<open>_try_unix_timestamp\<close> returns, and that is the reading of the digits and dots of the
  text as milliseconds above \<open>1e12\<close>, as seconds above \<open>1e9\<close>, and nothing otherwise.
\<close>

lemma parse_reaches_unix_step:
  assumes "date_string \<noteq> []"
    and "dateutil env = None \<or>
         (\<exists>f. dateutil env = Some f \<and>
              (f (clean_date_string date_string) = Inl ValueError \<or>
               f (clean_date_string date_string) = Inl TypeError))"
    and "first_format (zones env) (clean_date_string date_string) DATE_FORMATS = None"
  shows "parse env date_string
           = Inr (try_unix_timestamp (utcoffset env) (clean_date_string date_string))"
  using assms by (auto simp: parse_def parse_with_def)

lemma try_unix_timestamp_thresholds:
  assumes "float_of_numeric (filter (\<lambda>c. is_digit c \<or> c = CHR ''.'') date_string) = Some v"
  shows "try_unix_timestamp utcoff date_string =
           (if float_gt v (10 ^ 12) then
              (case fromtimestamp utcoff (PFloat (float_div v 1000)) of
                 Inl e \<Rightarrow> None | Inr dt \<Rightarrow> Some dt)
            else if float_gt v (10 ^ 9) then
              (case fromtimestamp utcoff (PFloat v) of Inl e \<Rightarrow> None | Inr dt \<Rightarrow> Some dt)
            else None)"
proof -
  from assms have "filter (\<lambda>c. is_digit c \<or> c = CHR ''.'') date_string \<noteq> []"
    by (auto simp: float_of_numeric_def)
  with assms show ?thesis by (simp add: try_unix_timestamp_def)
qed

lemma valid_T2: "valid_datetime T2"
  by (simp add: T2_def valid_datetime_def valid_fields_def valid_offset_def days_in_month_def)

lemma get_after_update_T2:
  "get_last_timestamp (update_timestamp io_ok now sm dcid T2 raw_value etag) dcid = Some T2"
  using get_after_update_whole_seconds [OF valid_T2, of io_ok now sm dcid raw_value etag]
  by (simp add: T2_def)






section \<open>Claims\<close>

text \<open>
  \<^bold>\<open>C1\<close>. \<open>compare_with_stored\<close> returns false when current is none, true when current is
  present and stored is none, and otherwise the value of \<open>current > stored\<close>: true
  exactly when the two values are comparable and current is the later instant, so that
  equal values give false. (\<open>current > stored\<close> is Python's operator on datetimes, which
  raises for a naive value against an aware one; the policy adds nothing to it.)
\<close>

theorem C1_compare_with_stored_policy:
  "compare_with_stored None stored = Inr False \<and>
   compare_with_stored (Some c) None = Inr True \<and>
   compare_with_stored (Some c) (Some s) = dt_gt c s \<and>
   (compare_with_stored (Some c) (Some s) = Inr True)
     = (aware c = aware s \<and> instant s < instant c) \<and>
   compare_with_stored (Some c) (Some c) = Inr False"
  by (simp add: compare_with_stored_def dt_gt_def dt_cmp_def)

theorem C1_compare_with_stored_policy_witness:
  "compare_with_stored None (Some T0) = Inr False \<and>
   compare_with_stored (Some T2) None = Inr True \<and>
   compare_with_stored (Some T2) (Some T0) = Inr True \<and>
   compare_with_stored (Some T0) (Some T2) \<noteq> Inr True \<and>
   compare_with_stored (Some T2) (Some T2) = Inr False"
proof -
  have a: "aware T2 = aware T0" by (simp add: aware_def T0_def T2_def)
  have i: "instant T0 < instant T2"
    by (simp add: instant_def wall_micros_def ymd2ord_def days_before_year_def
        days_before_month_def T0_def T2_def)
  have n: "\<not> instant T2 < instant T0" using i by simp
  from C1_compare_with_stored_policy [of "Some T0" T2 T0]
    C1_compare_with_stored_policy [of "Some T0" T0 T2] a i n
  show ?thesis by blast
qed

text \<open>
  \<^bold>\<open>C2\<close>. The claim says that a current instant obtained by the handler is always
  persisted. At this input it is not: the state holds an aware timestamp, the handler
  returns a naive one, the comparison raises \<open>TypeError\<close> before \<open>update_timestamp\<close> is
  reached, and the exception leaves \<open>check_for_updates\<close> with the state as it was.
\<close>

theorem C2_current_not_persisted_when_comparison_raises:
  "w_fetch (world_returning (Some T1)) HTTPHandler
      [(''dcid'', CStr ''src''), (''method'', CStr ''http_head''),
       (''data_url'', CStr ''https://example.com/data.csv'')]
     = FetchReturned (Some T1) attrs_http \<and>
   get_last_timestamp sm_T0 ''src'' = Some T0 \<and>
   check_for_updates (world_returning (Some T1)) sources_http None sm_T0 ''src''
     = (Inl TypeError, sm_T0)"
  by (simp add: check_naive_after_aware get_last_sm_T0) (simp add: world_returning_def)

text \<open>
  \<^bold>\<open>C3\<close>. For a source id that the registry does not hold, \<open>check_for_updates\<close> returns
  (it does not raise) an error result with \<open>changed\<close> false and the message
  "Source not found: id", and the state manager is the one it was given.
\<close>

theorem C3_unknown_source_error_result:
  assumes "sources dcid = None"
  shows "check_for_updates w sources ver sm dcid = (Inr (source_not_found dcid), sm) \<and>
         r_changed (source_not_found dcid) = False \<and>
         r_error (source_not_found dcid) = Some (''Source not found: '' @ dcid)"
  using assms
  by (simp add: check_for_updates_def get_source_def source_not_found_def
      CheckResult_default_def)

theorem C3_unknown_source_error_result_witness:
  "sources_http ''other'' = None \<and>
   check_for_updates (world_returning (Some T2)) sources_http (Some True) sm_T0 ''other''
     = (Inr (source_not_found ''other''), sm_T0) \<and>
   r_changed (source_not_found ''other'') = False \<and>
   r_error (source_not_found ''other'') = Some ''Source not found: other''"
proof -
  have h: "sources_http ''other'' = None" by (simp add: sources_http_def)
  from C3_unknown_source_error_result
    [of sources_http "''other''" "world_returning (Some T2)" "Some True" sm_T0, OF h] h
  show ?thesis by simp
qed


text \<open>
  \<^bold>\<open>C9\<close>, as stated, fails on a malformed reply that still holds a JSON object: the
  service answers \<open>{}\<close>, an object with none of the fields asked for, and the verifier
  returns a verdict (\<open>is_verified\<close> false, confidence 0.0, no error), not the unknown
  record.
\<close>

theorem C9_empty_object_counterexample:
  "chat env_empty_object ''2025-01-16'' (truncate_content ''page'') ''name'' ''url''
     = ChatContent (Some ''{}'') \<and>
   json_loads env_empty_object ''{}'' = Loaded (JDict []) \<and>
   verify_timestamp env_empty_object True ''2025-01-16'' ''page'' ''name'' ''url''
     = Inr negative_verdict \<and>
   v_is_verified negative_verdict = JBool False \<and>
   v_error negative_verdict = None \<and>
   \<not> is_unknown negative_verdict"
  by (simp add: empty_object_example)
    (simp add: env_empty_object_def negative_verdict_def is_unknown_def)

text \<open>
  \<^bold>\<open>C9\<close>, amended. \<open>verify_timestamp\<close> never raises. Its outcome is the unknown record
  exactly when no verdict is read: the client is missing, the service call raises, the
  content is \<open>None\<close>, or the reply holds no span in braces that decodes to a JSON object
  whose confidence converts to a number; from any other reply the fields of the object
  are taken as the verdict, a missing \<open>is_verified\<close> being false. Whatever the verifier
  is and does, \<open>check_for_updates\<close> leaves the same state manager and reports the same
  \<open>changed\<close> as with verification disabled.
\<close>

theorem C9_unknown_exactly_when_no_verdict_is_read:
  "(\<exists>r. verify_timestamp env client e p n u = Inr r \<and>
        is_unknown r = no_verdict env client e p n u) \<and>
   snd (check_for_updates w sources ver sm dcid)
     = snd (check_for_updates w sources None sm dcid) \<and>
   map_sum id r_changed (fst (check_for_updates w sources ver sm dcid))
     = map_sum id r_changed (fst (check_for_updates w sources None sm dcid))"
proof -
  have "\<exists>r. verify_timestamp env client e p n u = Inr r \<and>
        is_unknown r = no_verdict env client e p n u"
  proof (cases "no_verdict env client e p n u")
    case True
    from verify_timestamp_unknown [OF this] True show ?thesis by auto
  next
    case False
    from verify_timestamp_verdict [OF this] False show ?thesis by auto
  qed
  with check_independent_of_verifier [of w sources ver sm dcid] show ?thesis by blast
qed

theorem C9_unknown_exactly_when_no_verdict_is_read_witness:
  "verify_timestamp env_plain True ''2025-01-16'' ''page'' ''name'' ''url''
     = Inr (fallback_response ''I cannot tell.'') \<and>
   no_verdict env_plain True ''2025-01-16'' ''page'' ''name'' ''url'' \<and>
   is_unknown (fallback_response ''I cannot tell.'') \<and>
   snd (check_for_updates (world_returning (Some T2)) sources_http (Some True) sm_T0 ''src'')
     = snd (check_for_updates (world_returning (Some T2)) sources_http None sm_T0 ''src'')"
proof -
  have v: "verify_timestamp env_plain True ''2025-01-16'' ''page'' ''name'' ''url''
     = Inr (fallback_response ''I cannot tell.'')"
    by (simp add: verify_timestamp_def env_plain_def groq_parse_response_def json_match_def)
  from C9_unknown_exactly_when_no_verdict_is_read
    [of env_plain True "''2025-01-16''" "''page''" "''name''" "''url''"
        "world_returning (Some T2)" sources_http "Some True" sm_T0 "''src''"]
    malformed_example [of "''2025-01-16''" "''page''" "''name''" "''url''"] v
  show ?thesis by simp
qed

text \<open>
  \<^bold>\<open>C10\<close>, as stated, fails on the error results: for a known source whose method has no
  handler, the result carries no \<open>previous_timestamp\<close> although a value is stored.
\<close>

theorem C10_error_result_counterexample:
  "get_source sources_ftp ''src'' \<noteq> None \<and>
   get_last_timestamp sm_T0 ''src'' = Some T0 \<and>
   map_sum id r_previous_timestamp
     (fst (check_for_updates (world_returning (Some T2)) sources_ftp None sm_T0 ''src''))
     = Inr None"
  by (simp add: check_unknown_method get_last_sm_T0 get_source_ftp)

text \<open>
  \<^bold>\<open>C10\<close>, amended. For every check of a known source that reaches the comparison (a
  handler exists for its method, its fetch returns, and the comparison does not raise),
  the result's \<open>previous_timestamp\<close> is the value read from the state manager as it was
  before the call, while the state manager returned is the one updated with the
  current timestamp.
\<close>

theorem C10_previous_timestamp_read_before_update:
  assumes "get_handler sources dcid = Some (kind, config)"
    and "w_fetch w kind config = FetchReturned cur attrs"
    and "compare_with_stored cur (get_last_timestamp sm dcid) = Inr ch"
  shows "\<exists>res. check_for_updates w sources ver sm dcid =
           (Inr res,
            (case cur of None \<Rightarrow> sm
             | Some c \<Rightarrow> update_timestamp (w_io_ok w) (w_now w) sm dcid c
                          (h_raw_timestamp attrs) (get_etag kind attrs)))
         \<and> r_previous_timestamp res = get_last_timestamp sm dcid"
  using check_main_path [OF assms, of ver] by blast

theorem C10_previous_timestamp_read_before_update_witness:
  "map_sum id r_previous_timestamp
     (fst (check_for_updates (world_returning (Some T2)) sources_http None sm_T0 ''src''))
     = Inr (Some T0) \<and>
   get_last_timestamp
     (snd (check_for_updates (world_returning (Some T2)) sources_http None sm_T0 ''src''))
     ''src'' = Some T2"
proof -
  have f: "w_fetch (world_returning (Some T2)) HTTPHandler
      [(''dcid'', CStr ''src''), (''method'', CStr ''http_head''),
       (''data_url'', CStr ''https://example.com/data.csv'')]
     = FetchReturned (Some T2) attrs_http"
    by (simp add: world_returning_def)
  have c: "compare_with_stored (Some T2) (get_last_timestamp sm_T0 ''src'') = Inr True"
    by (simp add: get_last_sm_T0 aware_later)
  from C10_previous_timestamp_read_before_update [OF get_handler_http f c, of None]
  show ?thesis
    by (auto simp: get_last_sm_T0 get_after_update_T2)
qed

text \<open>
  \<^bold>\<open>C4\<close>. The claim says that \<open>fetch\<close> never raises. The API handler does, at this input:
  the body is JSON whose \<open>updated_at\<close> is the number \<open>10^22\<close>; it is above \<open>1e12\<close>, so it is
  divided by 1000 and given to \<open>fromtimestamp\<close>, which raises \<open>OverflowError\<close>;
  \<open>_parse_timestamp_value\<close> catches \<open>ValueError\<close> and \<open>OSError\<close> only, and the retry loop
  catches \<open>RequestException\<close> only.
\<close>

theorem C4_api_fetch_raises_overflow_error:
  "request net_overflow ''GET'' 0 = Response 200 [] body_overflow \<and>
   loads net_overflow body_overflow
     = Loaded (JDict [(''updated_at'', JInt 10000000000000000000000)]) \<and>
   fst (api_fetch_current_timestamp env_no_dateutil net_overflow 3 cfg_api)
     = Inl OverflowError"
  by (simp add: api_overflow) (simp add: net_overflow_def)

text \<open>
  \<^bold>\<open>C5\<close>. The claim says that the API handler goes on to other methods when the server
  answers "method not allowed". The handler of handlers/api_handler.py does not: at this
  input the server answers 405 to every GET and would answer a POST with the timestamp;
  the handler makes its three GET requests and returns none. The handler of main.py, at
  the same input, requests GET, HEAD and POST and returns the timestamp.
\<close>

theorem C5_api_handler_requests_get_only:
  "request net_get_not_allowed ''GET'' 0 = Response 405 [] [] \<and>
   request net_get_not_allowed ''POST'' 0 = Response 200 [] body_ok \<and>
   api_fetch_current_timestamp env_no_dateutil net_get_not_allowed 3 cfg_api
     = (Inr None, [''GET'', ''GET'', ''GET'']) \<and>
   main_api_fetch_current_timestamp env_no_dateutil net_get_not_allowed cfg_api
     = (Inr (Some dt_2024), [''GET'', ''HEAD'', ''POST''])"
  by (simp add: api_get_only main_api_falls_back) (simp add: net_get_not_allowed_def)

text \<open>
  \<^bold>\<open>C6\<close>. The claim says that the unix-seconds text and the unix-milliseconds text parse to
  the same instant. With \<open>dateutil\<close> not installed, \<open>parse\<close> gives 1705-03-15 08:00:00 for
  the first: the format \<open>%Y%m%d%H%M%S\<close>, tried before the unix timestamp step, accepts
  the ten digits. The second reaches the step and gives 2024-01-15 10:50:00 (on a host in
  UTC), which is also what the step gives for the first text, and what the parser of
  main.py, which has no compact format, gives for both.
\<close>

theorem C6_seconds_text_read_by_compact_format:
  "parse env_no_dateutil ''1705315800'' = Inr (Some dt_1705) \<and>
   parse env_no_dateutil ''1705315800000'' = Inr (Some dt_2024) \<and>
   dt_1705 \<noteq> dt_2024 \<and>
   strptime [''utc'', ''gmt''] ''1705315800'' ''%Y%m%d%H%M%S'' = Some dt_1705 \<and>
   try_unix_timestamp 0 ''1705315800'' = Some dt_2024 \<and>
   parse_main env_no_dateutil ''1705315800'' = Inr (Some dt_2024) \<and>
   parse_main env_no_dateutil ''1705315800000'' = Inr (Some dt_2024)"
  by (simp add: parse_seconds parse_millis unix_seconds parse_main_seconds parse_main_millis)
    (simp add: dt_1705_def dt_2024_def strptime_def regex_seconds valid_fields_def
      days_in_month_def)




end
